theory Spec2Isabelle
  imports Main "HOL-Library.Word"
begin

unbundle bit_operations_syntax

section \<open>The boot and libc retargeting layer of mbed OS (rtos/mbed\_boot.c)\<close>

text \<open>
  The file \<^verbatim>\<open>mbed_boot.c\<close> runs between reset and the application's \<^verbatim>\<open>main\<close>.
  It is embedded here function by function. Global variables are the fields of one
  record, the \<^emph>\<open>world\<close>; every function takes the world and returns the new one.
  Calls that leave the file (kernel, C library, target hooks) are appended to the field
  \<open>trace\<close>, and what such a call returns is read from an \<^emph>\<open>environment\<close>, a record of
  functions of the trace so far. The three internal boot steps
  \<^verbatim>\<open>mbed_set_stack_heap\<close>, \<^verbatim>\<open>mbed_cpy_nvic\<close> and \<^verbatim>\<open>mbed_start_main\<close> log their
  entry in the trace as well, so that the order of the boot steps can be read from it.
  Preprocessor symbols are the fields of the record \<open>config\<close>.
\<close>

subsection \<open>Machine types\<close>

type_synonym u32 = "32 word"
type_synonym u8 = "8 word"

text \<open>\<^verbatim>\<open>osThreadId_t\<close> is a pointer; the code compares it with \<^verbatim>\<open>NULL\<close> and with
  \<^verbatim>\<open>&_main_obj\<close> only. Any other thread control block is named by a number.\<close>

datatype osThreadId_t = NULL | main_obj | thread nat

text \<open>The statically allocated locks of newlib, and pointers to \<^verbatim>\<open>struct __lock\<close>:
  null, the address of a static lock, or an address returned by \<^verbatim>\<open>malloc\<close>.\<close>

datatype static_lock =
    sinit_recursive_mutex | sfp_recursive_mutex | at_quick_exit_mutex
  | malloc_recursive_mutex | env_recursive_mutex | tz_mutex | arc4random_mutex

datatype lock_ptr = lock_NULL | lock_static static_lock | lock_heap u32

text \<open>Addresses of control blocks and buffers that the code hands to the kernel.\<close>

datatype obj_ref =
    null_ref | main_stack_ref | main_obj_ref | singleton_mutex_obj_ref
  | lock_obj_ref lock_ptr | std_mutex_sys_ref nat | std_mutex_file_ref nat

datatype osPriority_t = osPriorityNone | osPriorityNormal

record osMutexAttr_t =
  name :: string
  attr_bits :: u32
  cb_mem :: obj_ref
  cb_size :: u32

record osThreadAttr_t =
  thread_name :: string
  stack_mem :: obj_ref
  stack_size :: u32
  thread_cb_mem :: obj_ref
  thread_cb_size :: u32
  priority :: osPriority_t

text \<open>\<^verbatim>\<open>struct __lock\<close>; its member \<^verbatim>\<open>obj\<close> is the kernel's control block, which this
  file never reads or writes (it only passes its address).\<close>

record lock =
  lock_id :: u32
  lock_attr :: osMutexAttr_t

text \<open>What the IAR mutex initialisers store through their out parameter: the address of
  a slot of \<^verbatim>\<open>std_mutex_id_sys\<close> or of \<^verbatim>\<open>std_mutex_id_file\<close>.\<close>

datatype iar_Rmtx = sys_slot nat | file_slot nat

text \<open>What \<^verbatim>\<open>__user_perthread_libspace\<close> returns: \<^verbatim>\<open>_global_impure_ptr\<close> or
  \<^verbatim>\<open>&os_libspace[n]\<close>.\<close>

datatype reent_ptr = global_impure_ptr | os_libspace_at nat

subsection \<open>Calls and the trace\<close>

datatype event =
    Call_mbed_set_stack_heap
  | Call_mbed_cpy_nvic
  | Call_mbed_sdk_init
  | Call_osKernelInitialize
  | Call_uvisor_lib_init
  | Call_mbed_die
  | Call_mbed_start_main
  | Call_osThreadNew osThreadAttr_t
  | Call_error string
  | Call_osKernelStart
  | Call_mbed_main
  | Call_main
  | Call_user_setup_stackheap
  | Call_platform_post_stackheap_init
  | Call_rt_lib_init u32 u32
  | Call_cpp_initialize_aeabi
  | Call_libc_init_array
  | Call_iar_init_core
  | Call_iar_init_vfp
  | Call_low_level_init
  | Call_iar_data_init3
  | Call_iar_dynamic_initialization
  | Call_osMutexNew osMutexAttr_t
  | Call_osMutexDelete u32
  | Call_malloc u32
  | Call_free lock_ptr
  | Call_osRtxErrorNotify u32 osThreadId_t

text \<open>A call either returns a value or does not return (a fatal error halts, the
  scheduler takes over, or the code spins).\<close>

datatype 'a outcome = Returned 'a | NoReturn

subsection \<open>Configuration: preprocessor symbols, link-time symbols, sizes\<close>

record config =
  HEAP_override :: "(u32 \<times> u32) option"
  INITIAL_SP :: u32
  end_of_static_data :: u32
  ISR_STACK_START_def :: "u32 option"
  ISR_STACK_SIZE_def :: "u32 option"
  MBED_CONF_APP_MAIN_STACK_SIZE_def :: "u32 option"
  CORTEX_M0_or_A9 :: bool
  NVIC_RAM_VECTOR_ADDRESS :: "u32 option"
  NVIC_NUM_VECTORS :: nat
  FEATURE_UVISOR :: bool
  TARGET_UVISOR_SUPPORTED :: bool
  OS_THREAD_LIBSPACE_NUM :: nat
  MAX_LOCK :: nat
  osMutexRecursive :: u32
  osMutexPrioInherit :: u32
  osMutexRobust :: u32
  osRtxErrorClibSpace :: u32
  sizeof_mutex_obj :: u32
  sizeof_thread_obj :: u32
  sizeof_lock :: u32

text \<open>
  \<open>HEAP_override\<close> holds \<^verbatim>\<open>HEAP_START\<close> and \<^verbatim>\<open>HEAP_SIZE\<close> when they are defined (the
  \<^verbatim>\<open>#error\<close> checks make them come together; IAR defines them from its sections).
  Otherwise the heap starts at the end of static data (\<^verbatim>\<open>__end__\<close> for GCC,
  \<^verbatim>\<open>Image$$RW_IRAM1$$ZI$$Limit\<close> for ARM) and reaches \<^verbatim>\<open>INITIAL_SP\<close>.
  \<^verbatim>\<open>ISR_STACK_SIZE\<close> defaults to 1024, the main stack to 4096 bytes.
\<close>

definition HEAP_START :: "config \<Rightarrow> u32" where
  "HEAP_START cfg =
     (case HEAP_override cfg of Some (start, sz) \<Rightarrow> start | None \<Rightarrow> end_of_static_data cfg)"

definition HEAP_SIZE :: "config \<Rightarrow> u32" where
  "HEAP_SIZE cfg =
     (case HEAP_override cfg of Some (start, sz) \<Rightarrow> sz
      | None \<Rightarrow> INITIAL_SP cfg - HEAP_START cfg)"

definition ISR_STACK_SIZE :: "config \<Rightarrow> u32" where
  "ISR_STACK_SIZE cfg = (case ISR_STACK_SIZE_def cfg of Some n \<Rightarrow> n | None \<Rightarrow> 1024)"

definition MBED_CONF_APP_MAIN_STACK_SIZE :: "config \<Rightarrow> u32" where
  "MBED_CONF_APP_MAIN_STACK_SIZE cfg =
     (case MBED_CONF_APP_MAIN_STACK_SIZE_def cfg of Some n \<Rightarrow> n | None \<Rightarrow> 4096)"

subsection \<open>The environment: what the collaborators return\<close>

record env =
  osThreadNew_result :: "event list \<Rightarrow> u32"
  osMutexNew_result :: "event list \<Rightarrow> u32"
  malloc_result :: "event list \<Rightarrow> u32"
  low_level_init_result :: "event list \<Rightarrow> u32"
  uvisor_lib_init_result :: "event list \<Rightarrow> u32"
  osKernelStart_returns :: "event list \<Rightarrow> bool"

subsection \<open>The world: the global variables of the file\<close>

record 'r world =
  mbed_heap_start :: u32
  mbed_heap_size :: u32
  mbed_stack_isr_start :: u32
  mbed_stack_isr_size :: u32
  main_thread_attr :: osThreadAttr_t
  singleton_mutex_id :: u32
  singleton_mutex_attr :: osMutexAttr_t
  lock_mem :: "lock_ptr \<Rightarrow> lock"
  main_running :: int
  os_libspace :: "'r list"
  os_libspace_id :: "osThreadId_t list"
  low_level_init_needed :: u8
  std_mutex_id_sys :: "u32 list"
  std_mutex_id_file :: "u32 list"
  VTOR :: u32
  mem32 :: "u32 \<Rightarrow> u32"
  trace :: "event list"

definition log :: "event \<Rightarrow> 'r world \<Rightarrow> 'r world" where
  "log e w = w\<lparr>trace := trace w @ [e]\<rparr>"

text \<open>The events a run has added to the trace.\<close>

definition events_since :: "'r world \<Rightarrow> 'r world \<Rightarrow> event list" where
  "events_since w w' = drop (length (trace w)) (trace w')"

text \<open>Sequencing: what follows a call runs only if the call returns.\<close>

fun seq :: "'a outcome \<times> 's \<Rightarrow> ('a \<Rightarrow> 's \<Rightarrow> 'b outcome \<times> 's) \<Rightarrow> 'b outcome \<times> 's" where
  "seq (Returned a, s) k = k a s"
| "seq (NoReturn, s) k = (NoReturn, s)"

subsection \<open>Memory Layout Resolver\<close>

text \<open>
  \<^verbatim>\<open>mbed_set_stack_heap\<close>. Addresses and sizes are 32-bit words, so \<open>+\<close> and \<open>-\<close> wrap
  around as the C arithmetic on \<^verbatim>\<open>uint32_t\<close> does.
\<close>

definition mbed_set_stack_heap :: "config \<Rightarrow> 'r world \<Rightarrow> 'r world" where
  "mbed_set_stack_heap cfg w0 =
     (let w = log Call_mbed_set_stack_heap w0;
          free_start = HEAP_START cfg;
          free_size = HEAP_SIZE cfg
      in case ISR_STACK_START_def cfg of
           Some isr_start \<Rightarrow>
             w\<lparr>mbed_stack_isr_size := ISR_STACK_SIZE cfg,
               mbed_stack_isr_start := isr_start,
               mbed_heap_size := free_size,
               mbed_heap_start := free_start\<rparr>
         | None \<Rightarrow>
             (let isr_size = (if ISR_STACK_SIZE cfg < free_size then ISR_STACK_SIZE cfg
                              else free_size);
                  isr_start = free_start + free_size - isr_size;
                  free_size' = free_size - isr_size
              in w\<lparr>mbed_stack_isr_size := isr_size,
                    mbed_stack_isr_start := isr_start,
                    mbed_heap_size := free_size',
                    mbed_heap_start := free_start\<rparr>))"

text \<open>A region of memory is a start address and a size; \<open>in_region start size a\<close> says
  that the address \<open>a\<close> is one of the \<open>size\<close> bytes that follow \<open>start\<close>.\<close>

definition in_region :: "u32 \<Rightarrow> u32 \<Rightarrow> u32 \<Rightarrow> bool" where
  "in_region start sz a = (a - start < sz)"

subsection \<open>Calls to the collaborators\<close>

text \<open>A call of a function outside the file that returns nothing of interest.\<close>

definition call :: "event \<Rightarrow> 'r world \<Rightarrow> 'r world" where
  "call e w = log e w"

text \<open>Calls whose result the code uses: the call is logged, and the environment gives
  the result from the trace up to and including the call.\<close>

definition osThreadNew :: "env \<Rightarrow> osThreadAttr_t \<Rightarrow> 'r world \<Rightarrow> u32 \<times> 'r world" where
  "osThreadNew env attr w =
     (let w' = log (Call_osThreadNew attr) w in (osThreadNew_result env (trace w'), w'))"

definition osMutexNew :: "env \<Rightarrow> osMutexAttr_t \<Rightarrow> 'r world \<Rightarrow> u32 \<times> 'r world" where
  "osMutexNew env attr w =
     (let w' = log (Call_osMutexNew attr) w in (osMutexNew_result env (trace w'), w'))"

definition malloc :: "env \<Rightarrow> u32 \<Rightarrow> 'r world \<Rightarrow> u32 \<times> 'r world" where
  "malloc env n w =
     (let w' = log (Call_malloc n) w in (malloc_result env (trace w'), w'))"

definition low_level_init :: "env \<Rightarrow> 'r world \<Rightarrow> u32 \<times> 'r world" where
  "low_level_init env w =
     (let w' = log Call_low_level_init w in (low_level_init_result env (trace w'), w'))"

definition uvisor_lib_init :: "env \<Rightarrow> 'r world \<Rightarrow> u32 \<times> 'r world" where
  "uvisor_lib_init env w =
     (let w' = log Call_uvisor_lib_init w in (uvisor_lib_init_result env (trace w'), w'))"

text \<open>\<^verbatim>\<open>osKernelStart\<close> hands the processor to the scheduler; it comes back only when
  the kernel could not start.\<close>

definition osKernelStart :: "env \<Rightarrow> 'r world \<Rightarrow> unit outcome \<times> 'r world" where
  "osKernelStart env w =
     (let w' = log Call_osKernelStart w
      in if osKernelStart_returns env (trace w') then (Returned (), w') else (NoReturn, w'))"

text \<open>Modelled from the spec: the fatal-error reporter \<^verbatim>\<open>error\<close> is declared in
  \<^verbatim>\<open>mbed_error.h\<close> and its body is not part of the sources at hand. The specification
  says of it: ``takes a message, never returns (halts or resets)''.\<close>

definition error :: "string \<Rightarrow> 'r world \<Rightarrow> 'a outcome \<times> 'r world" where
  "error msg w = (NoReturn, log (Call_error msg) w)"

text \<open>Modelled from the spec: \<^verbatim>\<open>mbed_die\<close> is not part of the sources at hand. The
  specification says that a non-zero return of the isolation library's initialisation
  is fatal and halts the boot; so \<^verbatim>\<open>mbed_die\<close> does not return.\<close>

definition mbed_die :: "'r world \<Rightarrow> 'a outcome \<times> 'r world" where
  "mbed_die w = (NoReturn, log Call_mbed_die w)"

text \<open>Modelled from the spec: \<^verbatim>\<open>osRtxErrorNotify\<close> belongs to the kernel and is not part
  of the sources at hand. The specification says that the accessor reports to it and
  then falls back to returning the shared state; so the call returns to its caller.\<close>

definition osRtxErrorNotify :: "u32 \<Rightarrow> osThreadId_t \<Rightarrow> 'r world \<Rightarrow> 'r world" where
  "osRtxErrorNotify code object_id w = log (Call_osRtxErrorNotify code object_id) w"

text \<open>Modelled from the spec: \<^verbatim>\<open>_platform_post_stackheap_init\<close> belongs to the kernel
  (RTX) and is not part of the sources at hand. The specification has every adapter run
  kernel initialisation between the SDK-init hook and the start of the main thread, and
  the header comment of \<^verbatim>\<open>mbed_boot.c\<close> gives the call chain of the ARMC adapter as
  \<^verbatim>\<open>_platform_post_stackheap_init (RTX) -> osKernelInitialize (RTX)\<close>. So the call is
  logged and then calls \<^verbatim>\<open>osKernelInitialize\<close>.\<close>

definition platform_post_stackheap_init :: "'r world \<Rightarrow> 'r world" where
  "platform_post_stackheap_init w =
     call Call_osKernelInitialize (call Call_platform_post_stackheap_init w)"

subsection \<open>Vector Table Relocator\<close>

text \<open>\<^verbatim>\<open>mbed_cpy_nvic\<close>: \<open>mem32\<close> gives the 32-bit word at a byte address, so entry \<open>i\<close> of
  a table at \<open>base\<close> is at \<open>base + 4 * i\<close>. The loop copies the entries one after the other.\<close>

definition mbed_cpy_nvic :: "config \<Rightarrow> 'r world \<Rightarrow> 'r world" where
  "mbed_cpy_nvic cfg w0 =
     (let w = log Call_mbed_cpy_nvic w0
      in if CORTEX_M0_or_A9 cfg then w
         else case NVIC_RAM_VECTOR_ADDRESS cfg of
                None \<Rightarrow> w
              | Some ram \<Rightarrow>
                  (let old_vectors = VTOR w;
                       vectors = ram
                   in w\<lparr>mem32 := fold (\<lambda>i m. m(vectors + 4 * of_nat i :=
                                               m (old_vectors + 4 * of_nat i)))
                                      [0..<NVIC_NUM_VECTORS cfg] (mem32 w),
                         VTOR := ram\<rparr>))"

subsection \<open>Kernel Bootstrap\<close>

text \<open>\<^verbatim>\<open>mbed_start_main\<close>\<close>

definition mbed_start_main :: "config \<Rightarrow> env \<Rightarrow> 'r world \<Rightarrow> unit outcome \<times> 'r world" where
  "mbed_start_main cfg env w0 =
     (let w1 = log Call_mbed_start_main w0;
          w2 = w1\<lparr>main_thread_attr := (main_thread_attr w1)
                 \<lparr>stack_mem := main_stack_ref,
                  stack_size := MBED_CONF_APP_MAIN_STACK_SIZE cfg,
                  thread_cb_size := sizeof_thread_obj cfg,
                  thread_cb_mem := main_obj_ref,
                  priority := osPriorityNormal,
                  thread_name := ''main_thread''\<rparr>\<rparr>;
          (result, w3) = osThreadNew env (main_thread_attr w2) w2
      in seq (if result = 0 then error ''Pre main thread not created'' w3
              else (Returned (), w3))
             (\<lambda>_. osKernelStart env))"

subsection \<open>Libc Retargeting Shim: locks (GCC)\<close>

text \<open>\<^verbatim>\<open>init_lock_common\<close>, \<^verbatim>\<open>init_lock\<close>, \<^verbatim>\<open>init_recursive_lock\<close>\<close>

definition init_lock_common ::
  "config \<Rightarrow> env \<Rightarrow> lock_ptr \<Rightarrow> string \<Rightarrow> u32 \<Rightarrow> 'r world \<Rightarrow> 'r world" where
  "init_lock_common cfg env pLock pName attributeBits w =
     (let l = lock_mem w pLock;
          l1 = l\<lparr>lock_attr := (lock_attr l)
                 \<lparr>name := pName,
                  attr_bits := attributeBits,
                  cb_size := sizeof_mutex_obj cfg,
                  cb_mem := lock_obj_ref pLock\<rparr>\<rparr>;
          w1 = w\<lparr>lock_mem := (lock_mem w)(pLock := l1)\<rparr>;
          (new_id, w2) = osMutexNew env (lock_attr l1) w1
      in w2\<lparr>lock_mem := (lock_mem w2)(pLock := (lock_mem w2 pLock)\<lparr>lock_id := new_id\<rparr>)\<rparr>)"

definition init_lock :: "config \<Rightarrow> env \<Rightarrow> lock_ptr \<Rightarrow> string \<Rightarrow> 'r world \<Rightarrow> 'r world" where
  "init_lock cfg env pLock pName w =
     init_lock_common cfg env pLock pName (osMutexPrioInherit cfg OR osMutexRobust cfg) w"

definition init_recursive_lock ::
  "config \<Rightarrow> env \<Rightarrow> lock_ptr \<Rightarrow> string \<Rightarrow> 'r world \<Rightarrow> 'r world" where
  "init_recursive_lock cfg env pLock pName w =
     init_lock_common cfg env pLock pName
       (osMutexRecursive cfg OR osMutexPrioInherit cfg OR osMutexRobust cfg) w"

text \<open>The message of the two dynamic initialisers ends with carriage return and line
  feed.\<close>

definition out_of_memory_msg :: string where
  "out_of_memory_msg = ''newlib mutex init is out of memory'' @ [CHR 0x0D, CHR 0x0A]"

text \<open>\<^verbatim>\<open>__retarget_lock_init\<close> and \<^verbatim>\<open>__retarget_lock_init_recursive\<close>. The result is the
  pointer stored through the out parameter \<^verbatim>\<open>lock\<close>.\<close>

definition retarget_lock_init :: "config \<Rightarrow> env \<Rightarrow> 'r world \<Rightarrow> lock_ptr outcome \<times> 'r world" where
  "retarget_lock_init cfg env w =
     (let (a, w1) = malloc env (sizeof_lock cfg) w;
          lock = (if a = 0 then lock_NULL else lock_heap a)
      in if lock \<noteq> lock_NULL
         then (Returned lock, init_lock cfg env lock ''newlib_dynamic_mutex'' w1)
         else error out_of_memory_msg w1)"

definition retarget_lock_init_recursive ::
  "config \<Rightarrow> env \<Rightarrow> 'r world \<Rightarrow> lock_ptr outcome \<times> 'r world" where
  "retarget_lock_init_recursive cfg env w =
     (let (a, w1) = malloc env (sizeof_lock cfg) w;
          lock = (if a = 0 then lock_NULL else lock_heap a)
      in if lock \<noteq> lock_NULL
         then (Returned lock,
               init_recursive_lock cfg env lock ''newlib_dynamic_recursive_mutex'' w1)
         else error out_of_memory_msg w1)"

text \<open>\<^verbatim>\<open>__retarget_lock_close\<close> and \<^verbatim>\<open>__retarget_lock_close_recursive\<close>\<close>

definition retarget_lock_close :: "lock_ptr \<Rightarrow> 'r world \<Rightarrow> 'r world" where
  "retarget_lock_close lock w =
     (if lock \<noteq> lock_NULL
      then call (Call_free lock) (call (Call_osMutexDelete (lock_id (lock_mem w lock))) w)
      else w)"

definition retarget_lock_close_recursive :: "lock_ptr \<Rightarrow> 'r world \<Rightarrow> 'r world" where
  "retarget_lock_close_recursive lock w =
     (if lock \<noteq> lock_NULL
      then call (Call_free lock) (call (Call_osMutexDelete (lock_id (lock_mem w lock))) w)
      else w)"

subsection \<open>The thread body \<^verbatim>\<open>pre_main\<close>, one per toolchain\<close>

text \<open>The call of the application's \<^verbatim>\<open>main\<close> is logged as \<open>Call_main\<close>.\<close>

definition pre_main_MICROLIB :: "config \<Rightarrow> env \<Rightarrow> 'r world \<Rightarrow> 'r world" where
  "pre_main_MICROLIB cfg env w =
     (let w1 = w\<lparr>singleton_mutex_attr := (singleton_mutex_attr w)
                 \<lparr>name := ''singleton_mutex'',
                  attr_bits := osMutexRecursive cfg OR osMutexPrioInherit cfg OR osMutexRobust cfg,
                  cb_size := sizeof_mutex_obj cfg,
                  cb_mem := singleton_mutex_obj_ref\<rparr>\<rparr>;
          (new_id, w2) = osMutexNew env (singleton_mutex_attr w1) w1;
          w3 = w2\<lparr>singleton_mutex_id := new_id\<rparr>;
          w4 = call Call_cpp_initialize_aeabi w3
      in call Call_main w4)"

definition pre_main_ARMC :: "config \<Rightarrow> env \<Rightarrow> 'r world \<Rightarrow> 'r world" where
  "pre_main_ARMC cfg env w =
     (let w1 = w\<lparr>singleton_mutex_attr := (singleton_mutex_attr w)
                 \<lparr>name := ''singleton_mutex'',
                  attr_bits := osMutexRecursive cfg OR osMutexPrioInherit cfg OR osMutexRobust cfg,
                  cb_size := sizeof_mutex_obj cfg,
                  cb_mem := singleton_mutex_obj_ref\<rparr>\<rparr>;
          (new_id, w2) = osMutexNew env (singleton_mutex_attr w1) w1;
          w3 = w2\<lparr>singleton_mutex_id := new_id\<rparr>;
          w4 = call (Call_rt_lib_init (mbed_heap_start w3)
                       (mbed_heap_start w3 + mbed_heap_size w3)) w3
      in call Call_main w4)"

definition pre_main_GCC :: "config \<Rightarrow> env \<Rightarrow> 'r world \<Rightarrow> 'r world" where
  "pre_main_GCC cfg env w =
     (let w0 = w\<lparr>main_running := 1\<rparr>;
          w1 = w0\<lparr>singleton_mutex_attr := (singleton_mutex_attr w0)
                 \<lparr>name := ''singleton_mutex'',
                  attr_bits := osMutexRecursive cfg OR osMutexPrioInherit cfg OR osMutexRobust cfg,
                  cb_size := sizeof_mutex_obj cfg,
                  cb_mem := singleton_mutex_obj_ref\<rparr>\<rparr>;
          (new_id, w2) = osMutexNew env (singleton_mutex_attr w1) w1;
          w3 = w2\<lparr>singleton_mutex_id := new_id\<rparr>;
          w4 = init_recursive_lock cfg env (lock_static sinit_recursive_mutex) ''sinit_mutex'' w3;
          w5 = init_recursive_lock cfg env (lock_static sfp_recursive_mutex) ''sfp_mutex'' w4;
          w6 = init_recursive_lock cfg env (lock_static malloc_recursive_mutex) ''malloc_mutex'' w5;
          w7 = init_recursive_lock cfg env (lock_static env_recursive_mutex) ''env_mutex'' w6;
          w8 = init_lock cfg env (lock_static at_quick_exit_mutex) ''at_quick_exit_mutex'' w7;
          w9 = init_lock cfg env (lock_static tz_mutex) ''tz_mutex'' w8;
          w10 = init_lock cfg env (lock_static arc4random_mutex) ''arc4random_mutex'' w9;
          w11 = call Call_libc_init_array w10
      in call Call_main w11)"

definition pre_main_IAR :: "config \<Rightarrow> env \<Rightarrow> 'r world \<Rightarrow> 'r world" where
  "pre_main_IAR cfg env w =
     (let w1 = w\<lparr>singleton_mutex_attr := (singleton_mutex_attr w)
                 \<lparr>name := ''singleton_mutex'',
                  attr_bits := osMutexRecursive cfg OR osMutexPrioInherit cfg OR osMutexRobust cfg,
                  cb_size := sizeof_mutex_obj cfg,
                  cb_mem := singleton_mutex_obj_ref\<rparr>\<rparr>;
          (new_id, w2) = osMutexNew env (singleton_mutex_attr w1) w1;
          w3 = w2\<lparr>singleton_mutex_id := new_id\<rparr>;
          w4 = (if low_level_init_needed w3 \<noteq> 0
                then call Call_iar_dynamic_initialization w3 else w3);
          w5 = call Call_mbed_main w4
      in call Call_main w5)"

subsection \<open>Toolchain Entry Adapters\<close>

text \<open>MICROLIB: \<^verbatim>\<open>_main_init\<close>, which ends in an endless loop.\<close>

definition main_init :: "config \<Rightarrow> env \<Rightarrow> 'r world \<Rightarrow> unit outcome \<times> 'r world" where
  "main_init cfg env w =
     (let w1 = mbed_set_stack_heap cfg w;
          w2 = (if \<not> (FEATURE_UVISOR cfg \<and> TARGET_UVISOR_SUPPORTED cfg)
                then mbed_cpy_nvic cfg w1 else w1);
          w3 = call Call_mbed_sdk_init w2;
          w4 = call Call_osKernelInitialize w3
      in seq (mbed_start_main cfg env w4) (\<lambda>_ w5. (NoReturn, w5)))"

text \<open>ARMC: \<^verbatim>\<open>__rt_entry\<close>\<close>

definition rt_entry :: "config \<Rightarrow> env \<Rightarrow> 'r world \<Rightarrow> unit outcome \<times> 'r world" where
  "rt_entry cfg env w =
     (let w0 = call Call_user_setup_stackheap w;
          w1 = mbed_set_stack_heap cfg w0;
          w2 = (if \<not> (FEATURE_UVISOR cfg \<and> TARGET_UVISOR_SUPPORTED cfg)
                then mbed_cpy_nvic cfg w1 else w1);
          w3 = call Call_mbed_sdk_init w2;
          w4 = platform_post_stackheap_init w3
      in mbed_start_main cfg env w4)"

text \<open>GCC: \<^verbatim>\<open>software_init_hook\<close>\<close>

definition software_init_hook :: "config \<Rightarrow> env \<Rightarrow> 'r world \<Rightarrow> unit outcome \<times> 'r world" where
  "software_init_hook cfg env w =
     (let w1 = mbed_set_stack_heap cfg w;
          w2 = (if \<not> (FEATURE_UVISOR cfg \<and> TARGET_UVISOR_SUPPORTED cfg)
                then mbed_cpy_nvic cfg w1 else w1);
          w3 = call Call_mbed_sdk_init w2;
          w4 = call Call_osKernelInitialize w3
      in seq (if FEATURE_UVISOR cfg
              then (let (return_code, w5) = uvisor_lib_init env w4
                    in if return_code \<noteq> 0 then mbed_die w5 else (Returned (), w5))
              else (Returned (), w4))
             (\<lambda>_. mbed_start_main cfg env))"

text \<open>IAR: \<^verbatim>\<open>__iar_program_start\<close>. The \<^verbatim>\<open>int\<close> that \<^verbatim>\<open>__low_level_init\<close> returns is
  stored in a \<^verbatim>\<open>uint8_t\<close>, which keeps its low eight bits.\<close>

definition iar_program_start :: "config \<Rightarrow> env \<Rightarrow> 'r world \<Rightarrow> unit outcome \<times> 'r world" where
  "iar_program_start cfg env w =
     (let wa = call Call_iar_init_core w;
          wb = call Call_iar_init_vfp wa;
          (r, wc) = low_level_init env wb;
          low_level_init_needed_local = (ucast r :: u8);
          w1 = (if low_level_init_needed_local \<noteq> 0
                then (let wd = call Call_iar_data_init3 wc;
                          we = (if \<not> (FEATURE_UVISOR cfg \<and> TARGET_UVISOR_SUPPORTED cfg)
                                then mbed_cpy_nvic cfg wd else wd)
                      in call Call_mbed_sdk_init we)
                else wc);
          w2 = mbed_set_stack_heap cfg w1;
          w3 = w2\<lparr>low_level_init_needed := low_level_init_needed_local\<rparr>;
          w4 = call Call_osKernelInitialize w3
      in mbed_start_main cfg env w4)"

subsection \<open>IAR thread safety: system and file mutexes\<close>

text \<open>\<^verbatim>\<open>__iar_system_Mtxinit\<close>: the loop over \<^verbatim>\<open>std_mutex_id_sys\<close>, from \<open>index\<close> on. It
  returns the slot it has filled, or nothing when it runs off the end of the table.\<close>

function iar_system_Mtxinit_loop ::
  "config \<Rightarrow> env \<Rightarrow> nat \<Rightarrow> 'r world \<Rightarrow> iar_Rmtx option \<times> 'r world" where
  "iar_system_Mtxinit_loop cfg env index w =
     (if index < MAX_LOCK cfg
      then (if std_mutex_id_sys w ! index = 0
            then (let attr = \<lparr>name = ''system_mutex'',
                              attr_bits = osMutexRecursive cfg OR osMutexPrioInherit cfg
                                          OR osMutexRobust cfg,
                              cb_mem = std_mutex_sys_ref index,
                              cb_size = sizeof_mutex_obj cfg\<rparr>;
                      (new_id, w1) = osMutexNew env attr w
                  in (Some (sys_slot index),
                      w1\<lparr>std_mutex_id_sys := (std_mutex_id_sys w1)[index := new_id]\<rparr>))
            else iar_system_Mtxinit_loop cfg env (Suc index) w)
      else (None, w))"
  by pat_completeness auto
termination
  by (relation "measure (\<lambda>(cfg, env, index, w). MAX_LOCK cfg - index)") auto

declare iar_system_Mtxinit_loop.simps [simp del]

definition iar_system_Mtxinit :: "config \<Rightarrow> env \<Rightarrow> 'r world \<Rightarrow> iar_Rmtx outcome \<times> 'r world" where
  "iar_system_Mtxinit cfg env w =
     (case iar_system_Mtxinit_loop cfg env 0 w of
        (Some mutex, w1) \<Rightarrow> (Returned mutex, w1)
      | (None, w1) \<Rightarrow> error (''Not enough mutexes'' @ [CHR 0x0A]) w1)"

text \<open>\<^verbatim>\<open>__iar_file_Mtxinit\<close>, over the ten slots of \<^verbatim>\<open>std_mutex_id_file\<close>.\<close>

definition FOPEN_MAX :: nat where
  "FOPEN_MAX = 10"

function iar_file_Mtxinit_loop ::
  "config \<Rightarrow> env \<Rightarrow> nat \<Rightarrow> 'r world \<Rightarrow> iar_Rmtx option \<times> 'r world" where
  "iar_file_Mtxinit_loop cfg env index w =
     (if index < FOPEN_MAX
      then (if std_mutex_id_file w ! index = 0
            then (let attr = \<lparr>name = ''file_mutex'',
                              attr_bits = osMutexRecursive cfg OR osMutexPrioInherit cfg
                                          OR osMutexRobust cfg,
                              cb_mem = std_mutex_file_ref index,
                              cb_size = sizeof_mutex_obj cfg\<rparr>;
                      (new_id, w1) = osMutexNew env attr w
                  in (Some (file_slot index),
                      w1\<lparr>std_mutex_id_file := (std_mutex_id_file w1)[index := new_id]\<rparr>))
            else iar_file_Mtxinit_loop cfg env (Suc index) w)
      else (None, w))"
  by pat_completeness auto
termination
  by (relation "measure (\<lambda>(cfg, env, index, w). FOPEN_MAX - index)") auto

declare iar_file_Mtxinit_loop.simps [simp del]

definition iar_file_Mtxinit :: "config \<Rightarrow> env \<Rightarrow> 'r world \<Rightarrow> iar_Rmtx outcome \<times> 'r world" where
  "iar_file_Mtxinit cfg env w =
     (case iar_file_Mtxinit_loop cfg env 0 w of
        (Some mutex, w1) \<Rightarrow> (Returned mutex, w1)
      | (None, w1) \<Rightarrow> error (''Not enough mutexes'' @ [CHR 0x0A]) w1)"

subsection \<open>Libc Retargeting Shim: per-thread reentrant state (GCC)\<close>

text \<open>
  \<^verbatim>\<open>__user_perthread_libspace\<close>. The macro \<^verbatim>\<open>_REENT_INIT\<close> of newlib is a parameter:
  \<open>REENT_INIT n\<close> is the initial reentrant state of slot \<open>n\<close>. The loop is
  \<open>libspace_scan\<close>: it returns from the function with a pointer (\<open>Inl\<close>), or it runs to
  the end and leaves \<open>n\<close> (\<open>Inr\<close>).
\<close>

function libspace_scan ::
  "config \<Rightarrow> (nat \<Rightarrow> 'r) \<Rightarrow> osThreadId_t \<Rightarrow> nat \<Rightarrow> 'r world \<Rightarrow> (reent_ptr + nat) \<times> 'r world" where
  "libspace_scan cfg REENT_INIT ident n w =
     (if n < OS_THREAD_LIBSPACE_NUM cfg
      then (if os_libspace_id w ! n = NULL
            then (Inl (os_libspace_at n),
                  w\<lparr>os_libspace_id := (os_libspace_id w)[n := ident],
                    os_libspace := (os_libspace w)[n := REENT_INIT n]\<rparr>)
            else if os_libspace_id w ! n = ident
            then (Inl (os_libspace_at n), w)
            else libspace_scan cfg REENT_INIT ident (Suc n) w)
      else (Inr n, w))"
  by pat_completeness auto
termination
  by (relation "measure (\<lambda>(cfg, REENT_INIT, ident, n, w). OS_THREAD_LIBSPACE_NUM cfg - n)") auto

declare libspace_scan.simps [simp del]

definition user_perthread_libspace ::
  "config \<Rightarrow> (nat \<Rightarrow> 'r) \<Rightarrow> osThreadId_t \<Rightarrow> 'r world \<Rightarrow> reent_ptr \<times> 'r world" where
  "user_perthread_libspace cfg REENT_INIT ident w =
     (if main_running w = 0 then (global_impure_ptr, w)
      else if ident = main_obj then (global_impure_ptr, w)
      else (case libspace_scan cfg REENT_INIT ident 0 w of
              (Inl p, w1) \<Rightarrow> (p, w1)
            | (Inr n, w1) \<Rightarrow>
                (global_impure_ptr,
                 if n = OS_THREAD_LIBSPACE_NUM cfg
                 then osRtxErrorNotify (osRtxErrorClibSpace cfg) ident w1 else w1)))"

section \<open>Notions used in the properties\<close>

subsection \<open>A concrete configuration and the world at reset\<close>

text \<open>
  A configuration with the default interrupt-stack and main-stack sizes and a free span
  from \<open>0x2000\<close> to \<open>0x10000\<close>; the flag values are those of \<^verbatim>\<open>cmsis_os2.h\<close>. At reset
  every global variable is zero; the arrays have their declared lengths.
\<close>

definition example_config :: config where
  "example_config =
     \<lparr>HEAP_override = None, INITIAL_SP = 0x10000, end_of_static_data = 0x2000,
      ISR_STACK_START_def = None, ISR_STACK_SIZE_def = None,
      MBED_CONF_APP_MAIN_STACK_SIZE_def = None,
      CORTEX_M0_or_A9 = False, NVIC_RAM_VECTOR_ADDRESS = Some 0x20000000,
      NVIC_NUM_VECTORS = 4,
      FEATURE_UVISOR = False, TARGET_UVISOR_SUPPORTED = False,
      OS_THREAD_LIBSPACE_NUM = 2, MAX_LOCK = 2,
      osMutexRecursive = 1, osMutexPrioInherit = 2, osMutexRobust = 8,
      osRtxErrorClibSpace = 3,
      sizeof_mutex_obj = 28, sizeof_thread_obj = 68, sizeof_lock = 48\<rparr>"

definition initial_world :: "config \<Rightarrow> 'r \<Rightarrow> (u32 \<Rightarrow> u32) \<Rightarrow> 'r world" where
  "initial_world cfg r m =
     \<lparr>mbed_heap_start = 0, mbed_heap_size = 0,
      mbed_stack_isr_start = 0, mbed_stack_isr_size = 0,
      main_thread_attr =
        \<lparr>thread_name = [], stack_mem = null_ref, stack_size = 0,
         thread_cb_mem = null_ref, thread_cb_size = 0, priority = osPriorityNone\<rparr>,
      singleton_mutex_id = 0,
      singleton_mutex_attr = \<lparr>name = [], attr_bits = 0, cb_mem = null_ref, cb_size = 0\<rparr>,
      lock_mem = (\<lambda>p. \<lparr>lock_id = 0,
         lock_attr = \<lparr>name = [], attr_bits = 0, cb_mem = null_ref, cb_size = 0\<rparr>\<rparr>),
      main_running = 0,
      os_libspace = replicate (OS_THREAD_LIBSPACE_NUM cfg) r,
      os_libspace_id = replicate (OS_THREAD_LIBSPACE_NUM cfg) NULL,
      low_level_init_needed = 0,
      std_mutex_id_sys = replicate (MAX_LOCK cfg) 0,
      std_mutex_id_file = replicate FOPEN_MAX 0,
      VTOR = 0, mem32 = m, trace = []\<rparr>"


subsection \<open>The slot table of the per-thread reentrant state\<close>

text \<open>The arrays \<^verbatim>\<open>os_libspace\<close> and \<^verbatim>\<open>os_libspace_id\<close> are declared with
  \<^verbatim>\<open>OS_THREAD_LIBSPACE_NUM\<close> elements.\<close>

definition libspace_wf :: "config \<Rightarrow> 'r world \<Rightarrow> bool" where
  "libspace_wf cfg w =
     (length (os_libspace_id w) = OS_THREAD_LIBSPACE_NUM cfg \<and>
      length (os_libspace w) = OS_THREAD_LIBSPACE_NUM cfg)"

text \<open>The index at which the scan for \<open>ident\<close>, started at \<open>n\<close>, stops: the first slot
  from \<open>n\<close> on that is free or holds \<open>ident\<close>, or the length of the table.\<close>

definition first_slot :: "osThreadId_t \<Rightarrow> nat \<Rightarrow> osThreadId_t list \<Rightarrow> nat" where
  "first_slot ident n ids = n + length (takeWhile (\<lambda>x. x \<noteq> NULL \<and> x \<noteq> ident) (drop n ids))"

text \<open>A sequence of calls of \<^verbatim>\<open>__user_perthread_libspace\<close>, one after the other.\<close>

definition libspace_calls ::
  "config \<Rightarrow> (nat \<Rightarrow> 'r) \<Rightarrow> osThreadId_t list \<Rightarrow> 'r world \<Rightarrow> 'r world" where
  "libspace_calls cfg R idents w =
     fold (\<lambda>ident w'. snd (user_perthread_libspace cfg R ident w')) idents w"

text \<open>An identity is settled in a table when the scan for it does not stop at a free
  slot.\<close>

definition settled :: "osThreadId_t \<Rightarrow> osThreadId_t list \<Rightarrow> bool" where
  "settled ident ids =
     (let k = first_slot ident 0 ids in k < length ids \<longrightarrow> ids ! k = ident)"

text \<open>The claimed slots are the slots before the first free one. The invariant of the
  table: after the claimed slots all slots are free, the claimed identities are
  pairwise distinct, and \<^verbatim>\<open>&_main_obj\<close> is not in the table.\<close>

definition claimed_slots :: "'r world \<Rightarrow> osThreadId_t list" where
  "claimed_slots w = takeWhile (\<lambda>x. x \<noteq> NULL) (os_libspace_id w)"

definition libspace_inv :: "config \<Rightarrow> 'r world \<Rightarrow> bool" where
  "libspace_inv cfg w =
     (libspace_wf cfg w \<and>
      os_libspace_id w =
        claimed_slots w @ replicate (OS_THREAD_LIBSPACE_NUM cfg - length (claimed_slots w)) NULL \<and>
      distinct (claimed_slots w) \<and>
      main_obj \<notin> set (os_libspace_id w))"

text \<open>The example configuration after the scheduler has started, with a given slot
  table (two slots); every reentrant state is \<open>1\<close>.\<close>

definition example_world :: "osThreadId_t list \<Rightarrow> nat world" where
  "example_world ids =
     (initial_world example_config 1 (\<lambda>a. 0))\<lparr>main_running := 1, os_libspace_id := ids\<rparr>"

text \<open>An identity has slot \<open>k\<close> of a table when the scan for it stops at \<open>k\<close> and slot
  \<open>k\<close> holds it.\<close>

definition slot_of :: "osThreadId_t \<Rightarrow> nat \<Rightarrow> osThreadId_t list \<Rightarrow> bool" where
  "slot_of ident k ids = (first_slot ident 0 ids = k \<and> k < length ids \<and> ids ! k = ident)"

text \<open>What the specification says of repeated calls, in its own words: a call with
  an identity, then calls with any identities, then a call with the first identity
  again return the same instance.\<close>

definition claimed_same_instance ::
  "config \<Rightarrow> (nat \<Rightarrow> 'r) \<Rightarrow> osThreadId_t \<Rightarrow> osThreadId_t list \<Rightarrow> 'r world \<Rightarrow> bool" where
  "claimed_same_instance cfg R ident others w =
     (fst (user_perthread_libspace cfg R ident
            (libspace_calls cfg R others (snd (user_perthread_libspace cfg R ident w)))) =
      fst (user_perthread_libspace cfg R ident w))"

text \<open>An initial reentrant state for the examples: 0 for every slot.\<close>

definition example_REENT_INIT :: "nat \<Rightarrow> nat" where
  "example_REENT_INIT n = 0"


subsection \<open>Reading the trace\<close>

text \<open>The attributes of the kernel mutexes created in a list of events, in the order of
  their creation, and the messages given to the fatal-error reporter.\<close>

definition mutexes_created :: "event list \<Rightarrow> osMutexAttr_t list" where
  "mutexes_created evs =
     concat (map (\<lambda>e. case e of Call_osMutexNew attr \<Rightarrow> [attr] | _ \<Rightarrow> []) evs)"

definition errors_reported :: "event list \<Rightarrow> string list" where
  "errors_reported evs =
     concat (map (\<lambda>e. case e of Call_error msg \<Rightarrow> [msg] | _ \<Rightarrow> []) evs)"

text \<open>A mutex attribute includes a flag when all bits of the flag are set in its
  \<^verbatim>\<open>attr_bits\<close>.\<close>

definition robust_and_prio_inherit :: "config \<Rightarrow> osMutexAttr_t \<Rightarrow> bool" where
  "robust_and_prio_inherit cfg attr =
     (attr_bits attr AND osMutexRobust cfg = osMutexRobust cfg \<and>
      attr_bits attr AND osMutexPrioInherit cfg = osMutexPrioInherit cfg)"

text \<open>The five boot steps, and those of them that occur in a list of events, in the
  order in which they occur.\<close>

definition is_boot_step :: "event \<Rightarrow> bool" where
  "is_boot_step e =
     (e \<in> set [Call_mbed_set_stack_heap, Call_mbed_cpy_nvic, Call_mbed_sdk_init,
               Call_osKernelInitialize, Call_mbed_start_main])"

definition boot_steps :: "event list \<Rightarrow> event list" where
  "boot_steps evs = filter is_boot_step evs"

text \<open>The place of a boot step in the order of the specification: memory layout, vector
  table, SDK initialisation, kernel initialisation, start of the main thread. The order
  is respected when every boot step that occurs has a higher place than the boot steps
  before it.\<close>

definition boot_rank :: "event \<Rightarrow> nat" where
  "boot_rank e =
     (if e = Call_mbed_set_stack_heap then 0
      else if e = Call_mbed_cpy_nvic then 1
      else if e = Call_mbed_sdk_init then 2
      else if e = Call_osKernelInitialize then 3
      else 4)"

definition boot_order_respected :: "event list \<Rightarrow> bool" where
  "boot_order_respected evs = sorted_wrt (<) (map boot_rank (boot_steps evs))"

text \<open>The isolation subsystem owns the vector table when \<^verbatim>\<open>FEATURE_UVISOR\<close> and
  \<^verbatim>\<open>TARGET_UVISOR_SUPPORTED\<close> are both defined.\<close>

definition isolation_owns_vectors :: "config \<Rightarrow> bool" where
  "isolation_owns_vectors cfg = (FEATURE_UVISOR cfg \<and> TARGET_UVISOR_SUPPORTED cfg)"

text \<open>What the specification says of every adapter, in its own words: the boot
  steps are the memory layout resolver, then the vector table relocator (unless
  isolation owns it), then the SDK-init hook, then kernel initialisation, then
  \<^verbatim>\<open>mbed_start_main\<close>.\<close>

definition claimed_boot_order :: "config \<Rightarrow> event list \<Rightarrow> bool" where
  "claimed_boot_order cfg evs =
     (boot_steps evs =
        [Call_mbed_set_stack_heap] @
        (if isolation_owns_vectors cfg then [] else [Call_mbed_cpy_nvic]) @
        [Call_mbed_sdk_init, Call_osKernelInitialize, Call_mbed_start_main])"

subsection \<open>An example environment and the world at reset\<close>

text \<open>Thread creation, mutex creation and allocation succeed, \<^verbatim>\<open>__low_level_init\<close>
  returns 1, and the scheduler does not come back.\<close>

definition example_env :: env where
  "example_env =
     \<lparr>osThreadNew_result = (\<lambda>tr. 0x20001000),
      osMutexNew_result = (\<lambda>tr. 0x20002000 + of_nat (length tr)),
      malloc_result = (\<lambda>tr. 0x20003000),
      low_level_init_result = (\<lambda>tr. 1),
      uvisor_lib_init_result = (\<lambda>tr. 0),
      osKernelStart_returns = (\<lambda>tr. False)\<rparr>"

text \<open>For IAR the heap and the interrupt stack are the sections \<^verbatim>\<open>HEAP\<close> and
  \<^verbatim>\<open>CSTACK\<close> of the linker file, so all four symbols are defined.\<close>

definition iar_example_config :: config where
  "iar_example_config =
     example_config\<lparr>HEAP_override := Some (0x20004000, 0x8000),
                    ISR_STACK_START_def := Some 0x2000C000,
                    ISR_STACK_SIZE_def := Some 0x400\<rparr>"

definition reset_world :: "nat world" where
  "reset_world = initial_world example_config 1 (\<lambda>a. 0)"


section \<open>Properties\<close>

subsection \<open>Memory Layout Resolver\<close>

lemma region_split:
  fixes x h f i :: u32
  assumes "i \<le> f" "h = f - i"
  shows "(x < f) = (x < h \<or> x - h < i)" "\<not> (x < h \<and> x - h < i)"
  using assms by unat_arith+

lemma set_stack_heap_fields:
  "ISR_STACK_START_def cfg = None \<Longrightarrow>
   mbed_heap_start (mbed_set_stack_heap cfg w) = HEAP_START cfg \<and>
   mbed_heap_size (mbed_set_stack_heap cfg w) =
     HEAP_SIZE cfg - (if ISR_STACK_SIZE cfg < HEAP_SIZE cfg then ISR_STACK_SIZE cfg else HEAP_SIZE cfg) \<and>
   mbed_stack_isr_size (mbed_set_stack_heap cfg w) =
     (if ISR_STACK_SIZE cfg < HEAP_SIZE cfg then ISR_STACK_SIZE cfg else HEAP_SIZE cfg) \<and>
   mbed_stack_isr_start (mbed_set_stack_heap cfg w) =
     HEAP_START cfg + HEAP_SIZE cfg -
       (if ISR_STACK_SIZE cfg < HEAP_SIZE cfg then ISR_STACK_SIZE cfg else HEAP_SIZE cfg)"
  by (simp add: mbed_set_stack_heap_def log_def Let_def)

text \<open>
  Claim C1. Without an explicit placement of the interrupt stack, and with a requested
  interrupt-stack size that is at most the free span, \<^verbatim>\<open>mbed_set_stack_heap\<close> starts the
  heap at the base of the free span, starts the interrupt stack where the heap ends, and
  makes the two sizes add up to the size of the free span (as words and as numbers, so
  the sum does not wrap). The interrupt stack gets the requested size. No address lies
  in both regions, and an address lies in the free span exactly when it lies in one of
  them.
\<close>

theorem set_stack_heap_partitions_free_span:
  "ISR_STACK_START_def cfg = None \<Longrightarrow> ISR_STACK_SIZE cfg \<le> HEAP_SIZE cfg \<Longrightarrow>
   (let w' = mbed_set_stack_heap cfg w in
      mbed_heap_start w' = HEAP_START cfg \<and>
      mbed_stack_isr_start w' = mbed_heap_start w' + mbed_heap_size w' \<and>
      mbed_heap_size w' + mbed_stack_isr_size w' = HEAP_SIZE cfg \<and>
      unat (mbed_heap_size w') + unat (mbed_stack_isr_size w') = unat (HEAP_SIZE cfg) \<and>
      mbed_stack_isr_size w' = ISR_STACK_SIZE cfg \<and>
      (\<forall>a. \<not> (in_region (mbed_heap_start w') (mbed_heap_size w') a \<and>
                in_region (mbed_stack_isr_start w') (mbed_stack_isr_size w') a)) \<and>
      (\<forall>a. in_region (HEAP_START cfg) (HEAP_SIZE cfg) a =
             (in_region (mbed_heap_start w') (mbed_heap_size w') a \<or>
              in_region (mbed_stack_isr_start w') (mbed_stack_isr_size w') a)))"
proof -
  assume none: "ISR_STACK_START_def cfg = None" and le: "ISR_STACK_SIZE cfg \<le> HEAP_SIZE cfg"
  define w' where "w' = mbed_set_stack_heap cfg w"
  have isz: "mbed_stack_isr_size w' = ISR_STACK_SIZE cfg"
    using le set_stack_heap_fields [OF none, of w] by (auto simp: w'_def)
  have hst: "mbed_heap_start w' = HEAP_START cfg"
    using set_stack_heap_fields [OF none, of w] by (simp add: w'_def)
  have hsz: "mbed_heap_size w' = HEAP_SIZE cfg - ISR_STACK_SIZE cfg"
    using le set_stack_heap_fields [OF none, of w] by (auto simp: w'_def)
  have ist: "mbed_stack_isr_start w' = HEAP_START cfg + (HEAP_SIZE cfg - ISR_STACK_SIZE cfg)"
    using le set_stack_heap_fields [OF none, of w] by (auto simp: w'_def)
  have nowrap: "unat (HEAP_SIZE cfg - ISR_STACK_SIZE cfg) + unat (ISR_STACK_SIZE cfg) =
      unat (HEAP_SIZE cfg)"
    using le by unat_arith
  have shift: "a - (HEAP_START cfg + (HEAP_SIZE cfg - ISR_STACK_SIZE cfg)) =
      (a - HEAP_START cfg) - (HEAP_SIZE cfg - ISR_STACK_SIZE cfg)" for a
    by simp
  have disj: "\<not> (in_region (mbed_heap_start w') (mbed_heap_size w') a \<and>
                in_region (mbed_stack_isr_start w') (mbed_stack_isr_size w') a)" for a
    unfolding in_region_def hst hsz ist isz shift
    by (rule region_split(2) [OF le refl])
  have un: "in_region (HEAP_START cfg) (HEAP_SIZE cfg) a =
             (in_region (mbed_heap_start w') (mbed_heap_size w') a \<or>
              in_region (mbed_stack_isr_start w') (mbed_stack_isr_size w') a)" for a
    unfolding in_region_def hst hsz ist isz shift
    by (rule region_split(1) [OF le refl])
  show ?thesis
    unfolding Let_def w'_def [symmetric]
    using isz hst hsz ist nowrap disj un by simp
qed

text \<open>The scenario of the specification: the free span from \<open>0x2000\<close> to \<open>0x10000\<close> and
  the default interrupt-stack size give the heap \<open>0xDC00\<close> bytes from \<open>0x2000\<close> and the
  interrupt stack \<open>0x400\<close> bytes from \<open>0xFC00\<close>.\<close>

theorem set_stack_heap_partitions_free_span_witness:
  "ISR_STACK_START_def example_config = None \<and>
   ISR_STACK_SIZE example_config \<le> HEAP_SIZE example_config \<and>
   HEAP_START example_config = 0x2000 \<and> HEAP_SIZE example_config = 0xE000 \<and>
   (let w' = mbed_set_stack_heap example_config (initial_world example_config (0::nat) (\<lambda>a. 0)) in
      mbed_heap_start w' = 0x2000 \<and> mbed_heap_size w' = 0xDC00 \<and>
      mbed_stack_isr_start w' = 0xFC00 \<and> mbed_stack_isr_size w' = 0x400 \<and>
      (\<forall>a. \<not> (in_region 0x2000 0xDC00 a \<and> in_region 0xFC00 0x400 a)) \<and>
      (\<forall>a. in_region 0x2000 0xE000 a = (in_region 0x2000 0xDC00 a \<or> in_region 0xFC00 0x400 a)))"
proof -
  have c: "ISR_STACK_START_def example_config = None"
    by (simp add: example_config_def)
  have h: "HEAP_START example_config = 0x2000" "HEAP_SIZE example_config = 0xE000"
    "ISR_STACK_SIZE example_config = 0x400"
    by (simp_all add: example_config_def HEAP_START_def HEAP_SIZE_def ISR_STACK_SIZE_def)
  have le: "ISR_STACK_SIZE example_config \<le> HEAP_SIZE example_config"
    by (simp add: h)
  have f: "mbed_heap_start (mbed_set_stack_heap example_config (initial_world example_config (0::nat) (\<lambda>a. 0))) = 0x2000"
    "mbed_heap_size (mbed_set_stack_heap example_config (initial_world example_config (0::nat) (\<lambda>a. 0))) = 0xDC00"
    "mbed_stack_isr_start (mbed_set_stack_heap example_config (initial_world example_config (0::nat) (\<lambda>a. 0))) = 0xFC00"
    "mbed_stack_isr_size (mbed_set_stack_heap example_config (initial_world example_config (0::nat) (\<lambda>a. 0))) = 0x400"
    using set_stack_heap_fields [OF c, of "initial_world example_config (0::nat) (\<lambda>a. 0)"]
    by (simp_all add: h)
  show ?thesis
    using set_stack_heap_partitions_free_span [OF c le, of "initial_world example_config (0::nat) (\<lambda>a. 0)"]
    unfolding Let_def f h by (simp add: c)
qed

text \<open>
  Claim C2. Without an explicit placement of the interrupt stack, and with a requested
  interrupt-stack size strictly greater than the free span, \<^verbatim>\<open>mbed_set_stack_heap\<close> gives
  the interrupt stack exactly the free span and the heap exactly nothing. The
  subtraction \<^verbatim>\<open>free_size - mbed_stack_isr_size\<close> does not wrap: it subtracts a number
  that is at most \<^verbatim>\<open>free_size\<close>, and its result is the difference of the two numbers.
\<close>

theorem set_stack_heap_oversized_isr_stack:
  "ISR_STACK_START_def cfg = None \<Longrightarrow> HEAP_SIZE cfg < ISR_STACK_SIZE cfg \<Longrightarrow>
   (let w' = mbed_set_stack_heap cfg w in
      mbed_stack_isr_size w' = HEAP_SIZE cfg \<and>
      mbed_heap_size w' = 0 \<and>
      unat (mbed_stack_isr_size w') \<le> unat (HEAP_SIZE cfg) \<and>
      int (unat (mbed_heap_size w')) =
        int (unat (HEAP_SIZE cfg)) - int (unat (mbed_stack_isr_size w')))"
proof -
  assume none: "ISR_STACK_START_def cfg = None" and gt: "HEAP_SIZE cfg < ISR_STACK_SIZE cfg"
  then have "\<not> ISR_STACK_SIZE cfg < HEAP_SIZE cfg" by simp
  then show ?thesis
    using set_stack_heap_fields [OF none, of w] by (simp add: Let_def)
qed

theorem set_stack_heap_oversized_isr_stack_witness:
  "ISR_STACK_START_def (example_config\<lparr>ISR_STACK_SIZE_def := Some 0x10000\<rparr>) = None \<and>
   HEAP_SIZE (example_config\<lparr>ISR_STACK_SIZE_def := Some 0x10000\<rparr>) <
     ISR_STACK_SIZE (example_config\<lparr>ISR_STACK_SIZE_def := Some 0x10000\<rparr>) \<and>
   (let w' = mbed_set_stack_heap (example_config\<lparr>ISR_STACK_SIZE_def := Some 0x10000\<rparr>)
               (initial_world example_config (0::nat) (\<lambda>a. 0)) in
      mbed_stack_isr_size w' = 0xE000 \<and> mbed_heap_size w' = 0 \<and>
      mbed_heap_start w' = 0x2000 \<and> mbed_stack_isr_start w' = 0x2000)"
proof -
  let ?cfg = "example_config\<lparr>ISR_STACK_SIZE_def := Some 0x10000\<rparr>"
  have c: "ISR_STACK_START_def ?cfg = None"
    by (simp add: example_config_def)
  have h: "HEAP_START ?cfg = 0x2000" "HEAP_SIZE ?cfg = 0xE000" "ISR_STACK_SIZE ?cfg = 0x10000"
    by (simp_all add: example_config_def HEAP_START_def HEAP_SIZE_def ISR_STACK_SIZE_def)
  have gt: "HEAP_SIZE ?cfg < ISR_STACK_SIZE ?cfg"
    by (simp add: h)
  show ?thesis
    using set_stack_heap_oversized_isr_stack [OF c gt, of "initial_world example_config (0::nat) (\<lambda>a. 0)"]
      set_stack_heap_fields [OF c, of "initial_world example_config (0::nat) (\<lambda>a. 0)"]
    unfolding Let_def h by (simp add: c)
qed

subsection \<open>Per-thread reentrant state\<close>

lemma first_slot_step:
  "n < length ids \<Longrightarrow> first_slot ident n ids =
     (if ids ! n = NULL \<or> ids ! n = ident then n else first_slot ident (Suc n) ids)"
  by (simp add: first_slot_def Cons_nth_drop_Suc [symmetric])

lemma first_slot_end: "length ids \<le> n \<Longrightarrow> first_slot ident n ids = n"
  by (simp add: first_slot_def)

lemma libspace_scan_char:
  "length (os_libspace_id w) = OS_THREAD_LIBSPACE_NUM cfg \<Longrightarrow> n \<le> OS_THREAD_LIBSPACE_NUM cfg \<Longrightarrow>
   libspace_scan cfg R ident n w =
     (let k = first_slot ident n (os_libspace_id w) in
      if k < OS_THREAD_LIBSPACE_NUM cfg
      then (Inl (os_libspace_at k),
            if os_libspace_id w ! k = NULL
            then w\<lparr>os_libspace_id := (os_libspace_id w)[k := ident],
                   os_libspace := (os_libspace w)[k := R k]\<rparr>
            else w)
      else (Inr (OS_THREAD_LIBSPACE_NUM cfg), w))"
proof (induction cfg R ident n w rule: libspace_scan.induct)
  case (1 cfg R ident n w)
  show ?case
  proof (cases "n < OS_THREAD_LIBSPACE_NUM cfg")
    case True
    then have n: "n < length (os_libspace_id w)" using "1.prems" by simp
    show ?thesis
    proof (cases "os_libspace_id w ! n = NULL \<or> os_libspace_id w ! n = ident")
      case True
      then show ?thesis
        using \<open>n < OS_THREAD_LIBSPACE_NUM cfg\<close> n
        by (subst libspace_scan.simps) (auto simp: first_slot_step Let_def)
    next
      case False
      then have "libspace_scan cfg R ident n w = libspace_scan cfg R ident (Suc n) w"
        using \<open>n < OS_THREAD_LIBSPACE_NUM cfg\<close> by (subst libspace_scan.simps) simp
      moreover have "first_slot ident n (os_libspace_id w) = first_slot ident (Suc n) (os_libspace_id w)"
        using False n by (simp add: first_slot_step)
      ultimately show ?thesis
        using "1.IH" [OF True] False "1.prems" True by simp
    qed
  next
    case False
    then have "n = OS_THREAD_LIBSPACE_NUM cfg" using "1.prems" by simp
    then show ?thesis
      using "1.prems" by (subst libspace_scan.simps) (simp add: first_slot_end)
  qed
qed

lemma first_slot_le: "first_slot ident 0 ids \<le> length ids"
  using length_takeWhile_le [of "\<lambda>x. x \<noteq> NULL \<and> x \<noteq> ident" ids]
  by (simp add: first_slot_def)

lemma first_slot_before:
  "j < first_slot ident 0 ids \<Longrightarrow> ids ! j \<noteq> NULL \<and> ids ! j \<noteq> ident"
  using nth_mem [of j "takeWhile (\<lambda>x. x \<noteq> NULL \<and> x \<noteq> ident) ids"]
    set_takeWhileD [of "ids ! j" "\<lambda>x. x \<noteq> NULL \<and> x \<noteq> ident" ids]
  by (simp add: first_slot_def takeWhile_nth)

lemma first_slot_at:
  "first_slot ident 0 ids < length ids \<Longrightarrow>
   ids ! first_slot ident 0 ids = NULL \<or> ids ! first_slot ident 0 ids = ident"
  using nth_length_takeWhile [of "\<lambda>x. x \<noteq> NULL \<and> x \<noteq> ident" ids]
  by (auto simp: first_slot_def)

lemma first_slot_eq:
  assumes "k < length ids" "\<And>j. j < k \<Longrightarrow> ids ! j \<noteq> NULL \<and> ids ! j \<noteq> ident"
    "ids ! k = NULL \<or> ids ! k = ident"
  shows "first_slot ident 0 ids = k"
proof -
  have "takeWhile (\<lambda>x. x \<noteq> NULL \<and> x \<noteq> ident) ids = take k ids"
    by (rule takeWhile_eq_take_P_nth) (use assms in auto)
  then show ?thesis using assms(1) by (simp add: first_slot_def)
qed

lemma first_slot_full:
  assumes "\<And>j. j < length ids \<Longrightarrow> ids ! j \<noteq> NULL \<and> ids ! j \<noteq> ident"
  shows "first_slot ident 0 ids = length ids"
proof -
  have "\<forall>x \<in> set ids. x \<noteq> NULL \<and> x \<noteq> ident"
    using assms by (metis in_set_conv_nth)
  then have tw: "takeWhile (\<lambda>x. x \<noteq> NULL \<and> x \<noteq> ident) ids = ids"
    by (simp add: takeWhile_eq_all_conv)
  show ?thesis by (simp add: first_slot_def tw)
qed

lemma libspace_char:
  assumes "length (os_libspace_id w) = OS_THREAD_LIBSPACE_NUM cfg"
    "main_running w \<noteq> 0" "ident \<noteq> main_obj"
  shows "user_perthread_libspace cfg R ident w =
     (let k = first_slot ident 0 (os_libspace_id w) in
      if k < OS_THREAD_LIBSPACE_NUM cfg
      then (os_libspace_at k,
            if os_libspace_id w ! k = NULL
            then w\<lparr>os_libspace_id := (os_libspace_id w)[k := ident],
                   os_libspace := (os_libspace w)[k := R k]\<rparr>
            else w)
      else (global_impure_ptr, osRtxErrorNotify (osRtxErrorClibSpace cfg) ident w))"
  using assms libspace_scan_char [OF assms(1), of 0 R ident]
  by (simp add: user_perthread_libspace_def Let_def)

lemma libspace_ids_after:
  assumes "length (os_libspace_id w) = OS_THREAD_LIBSPACE_NUM cfg"
    "main_running w \<noteq> 0" "ident \<noteq> main_obj"
  shows "os_libspace_id (snd (user_perthread_libspace cfg R ident w)) =
     (let k = first_slot ident 0 (os_libspace_id w) in
      if k < OS_THREAD_LIBSPACE_NUM cfg \<and> os_libspace_id w ! k = NULL
      then (os_libspace_id w)[k := ident] else os_libspace_id w)"
  by (simp add: libspace_char [OF assms] Let_def osRtxErrorNotify_def log_def)

lemma libspace_ptr:
  assumes "length (os_libspace_id w) = OS_THREAD_LIBSPACE_NUM cfg"
    "main_running w \<noteq> 0" "ident \<noteq> main_obj"
  shows "fst (user_perthread_libspace cfg R ident w) =
     (let k = first_slot ident 0 (os_libspace_id w) in
      if k < OS_THREAD_LIBSPACE_NUM cfg then os_libspace_at k else global_impure_ptr)"
  by (simp add: libspace_char [OF assms] Let_def)

lemma libspace_main_running:
  "main_running (snd (user_perthread_libspace cfg R ident w)) = main_running w"
proof (cases "main_running w = 0 \<or> ident = main_obj")
  case True
  then show ?thesis by (auto simp: user_perthread_libspace_def)
next
  case False
  obtain r w1 where s: "libspace_scan cfg R ident 0 w = (r, w1)" by force
  have "main_running (snd (libspace_scan cfg R ident n w)) = main_running w" for n
    by (induction cfg R ident n w rule: libspace_scan.induct)
       (subst libspace_scan.simps, simp)
  then have "main_running w1 = main_running w" using s by (metis snd_conv)
  then show ?thesis using False s
    by (auto simp: user_perthread_libspace_def osRtxErrorNotify_def log_def split: sum.splits)
qed

lemma libspace_wf_preserved:
  "libspace_wf cfg w \<Longrightarrow> libspace_wf cfg (snd (user_perthread_libspace cfg R ident w))"
proof (cases "main_running w = 0 \<or> ident = main_obj")
  case True
  assume "libspace_wf cfg w"
  with True show ?thesis by (auto simp: user_perthread_libspace_def)
next
  case False
  assume wf: "libspace_wf cfg w"
  then have len: "length (os_libspace_id w) = OS_THREAD_LIBSPACE_NUM cfg"
    by (simp add: libspace_wf_def)
  show ?thesis
    using wf False
    by (simp add: libspace_char [OF len] Let_def libspace_wf_def osRtxErrorNotify_def log_def)
qed

lemma first_slot_update_same:
  assumes "k = first_slot ident 0 ids" "k < length ids"
  shows "first_slot ident 0 (ids[k := ident]) = k"
proof (rule first_slot_eq)
  show "k < length (ids[k := ident])" using assms by simp
  show "ids[k := ident] ! j \<noteq> NULL \<and> ids[k := ident] ! j \<noteq> ident" if "j < k" for j
    using that first_slot_before [of j ident ids] assms by simp
  show "ids[k := ident] ! k = NULL \<or> ids[k := ident] ! k = ident"
    using assms by simp
qed

lemma libspace_repeat:
  assumes wf: "libspace_wf cfg w"
  shows "fst (user_perthread_libspace cfg R ident (snd (user_perthread_libspace cfg R ident w))) =
         fst (user_perthread_libspace cfg R ident w)"
proof (cases "main_running w = 0 \<or> ident = main_obj")
  case True
  then show ?thesis by (auto simp: user_perthread_libspace_def)
next
  case False
  let ?w1 = "snd (user_perthread_libspace cfg R ident w)"
  let ?ids = "os_libspace_id w"
  let ?k = "first_slot ident 0 ?ids"
  have len: "length ?ids = OS_THREAD_LIBSPACE_NUM cfg"
    using wf by (simp add: libspace_wf_def)
  have mr: "main_running w \<noteq> 0" and nm: "ident \<noteq> main_obj" using False by auto
  have len1: "length (os_libspace_id ?w1) = OS_THREAD_LIBSPACE_NUM cfg"
    using libspace_wf_preserved [OF wf, of R ident] by (simp add: libspace_wf_def)
  have mr1: "main_running ?w1 \<noteq> 0" using mr by (simp add: libspace_main_running)
  have "first_slot ident 0 (os_libspace_id ?w1) = ?k"
  proof (cases "?k < length ?ids \<and> ?ids ! ?k = NULL")
    case True
    then show ?thesis
      using first_slot_update_same [OF refl, of ident ?ids] len
      by (simp add: libspace_ids_after [OF len mr nm] Let_def)
  next
    case False
    then show ?thesis using len
      by (auto simp: libspace_ids_after [OF len mr nm] Let_def)
  qed
  then show ?thesis
    by (simp add: libspace_ptr [OF len mr nm] libspace_ptr [OF len1 mr1 nm] Let_def)
qed

lemma settled_after_call:
  assumes len: "length (os_libspace_id w) = OS_THREAD_LIBSPACE_NUM cfg"
    and mr: "main_running w \<noteq> 0" and nm: "ident \<noteq> main_obj"
  shows "settled ident (os_libspace_id (snd (user_perthread_libspace cfg R ident w)))"
    and "first_slot ident 0 (os_libspace_id (snd (user_perthread_libspace cfg R ident w))) =
         first_slot ident 0 (os_libspace_id w)"
proof -
  let ?ids = "os_libspace_id w"
  let ?k = "first_slot ident 0 ?ids"
  let ?ids1 = "os_libspace_id (snd (user_perthread_libspace cfg R ident w))"
  have same: "?ids[?k := ident] = ?ids" if "?ids ! ?k = ident"
    using that by (metis list_update_id)
  have ids1: "?ids1 = (if ?k < length ?ids then ?ids[?k := ident] else ?ids)"
    using first_slot_at [of ident ?ids] len same
    by (auto simp: libspace_ids_after [OF len mr nm] Let_def)
  show k1: "first_slot ident 0 ?ids1 = ?k"
    using first_slot_update_same [OF refl, of ident ?ids] by (simp add: ids1)
  show "settled ident ?ids1"
    unfolding settled_def Let_def k1 by (simp add: ids1)
qed

lemma settled_other_call:
  assumes len: "length (os_libspace_id w) = OS_THREAD_LIBSPACE_NUM cfg"
    and st: "settled ident (os_libspace_id w)" and nn: "ident \<noteq> NULL"
  shows "settled ident (os_libspace_id (snd (user_perthread_libspace cfg R other w))) \<and>
         first_slot ident 0 (os_libspace_id (snd (user_perthread_libspace cfg R other w))) =
         first_slot ident 0 (os_libspace_id w)"
proof (cases "main_running w = 0 \<or> other = main_obj")
  case True
  then show ?thesis using st by (auto simp: user_perthread_libspace_def)
next
  case False
  then have mr: "main_running w \<noteq> 0" and nm: "other \<noteq> main_obj" by auto
  let ?ids = "os_libspace_id w"
  let ?k = "first_slot ident 0 ?ids"
  let ?k' = "first_slot other 0 ?ids"
  show ?thesis
  proof (cases "?k' < length ?ids \<and> ?ids ! ?k' = NULL")
    case False
    then show ?thesis using st len
      by (auto simp: libspace_ids_after [OF len mr nm] Let_def)
  next
    case True
    then have ids1: "os_libspace_id (snd (user_perthread_libspace cfg R other w)) = ?ids[?k' := other]"
      using len by (simp add: libspace_ids_after [OF len mr nm] Let_def)
    have klt: "?k < length ?ids"
    proof (rule ccontr)
      assume "\<not> ?k < length ?ids"
      then have "?k' < ?k" using True first_slot_le [of ident ?ids] by simp
      then show False using first_slot_before [of ?k' ident ?ids] True by simp
    qed
    then have at: "?ids ! ?k = ident" using st by (simp add: settled_def Let_def)
    have "\<not> ?k' < ?k" using first_slot_before [of ?k' ident ?ids] True by auto
    moreover have "?k' \<noteq> ?k" using at True nn by auto
    ultimately have gt: "?k < ?k'" by simp
    have eq: "first_slot ident 0 (?ids[?k' := other]) = ?k"
    proof (rule first_slot_eq)
      show "?k < length (?ids[?k' := other])" using klt by simp
      show "?ids[?k' := other] ! j \<noteq> NULL \<and> ?ids[?k' := other] ! j \<noteq> ident" if "j < ?k" for j
        using that gt first_slot_before [of j ident ?ids] by simp
      show "?ids[?k' := other] ! ?k = NULL \<or> ?ids[?k' := other] ! ?k = ident"
        using gt at by simp
    qed
    show ?thesis
      unfolding ids1 settled_def Let_def eq using gt at by simp
  qed
qed

lemma libspace_calls_Cons:
  "libspace_calls cfg R (i # is) w =
   libspace_calls cfg R is (snd (user_perthread_libspace cfg R i w))"
  by (simp add: libspace_calls_def)

lemma libspace_calls_main_running:
  "main_running (libspace_calls cfg R idents w) = main_running w"
  by (induction idents arbitrary: w)
     (simp_all add: libspace_calls_Cons libspace_main_running, simp add: libspace_calls_def)

lemma libspace_calls_wf:
  "libspace_wf cfg w \<Longrightarrow> libspace_wf cfg (libspace_calls cfg R idents w)"
proof (induction idents arbitrary: w)
  case Nil
  then show ?case by (simp add: libspace_calls_def)
next
  case (Cons i "is")
  then show ?case by (simp add: libspace_calls_Cons libspace_wf_preserved)
qed

lemma settled_calls:
  "libspace_wf cfg w \<Longrightarrow> settled ident (os_libspace_id w) \<Longrightarrow> ident \<noteq> NULL \<Longrightarrow>
   settled ident (os_libspace_id (libspace_calls cfg R idents w)) \<and>
   first_slot ident 0 (os_libspace_id (libspace_calls cfg R idents w)) =
   first_slot ident 0 (os_libspace_id w)"
proof (induction idents arbitrary: w)
  case Nil
  then show ?case by (simp add: libspace_calls_def)
next
  case (Cons i "is")
  have len: "length (os_libspace_id w) = OS_THREAD_LIBSPACE_NUM cfg"
    using Cons.prems(1) by (simp add: libspace_wf_def)
  show ?case
    using Cons.IH [OF libspace_wf_preserved [OF Cons.prems(1), of R i]]
      settled_other_call [OF len Cons.prems(2,3), of R i] Cons.prems(3)
    by (simp add: libspace_calls_Cons)
qed

lemma libspace_repeat_interleaved:
  assumes wf: "libspace_wf cfg w" and nn: "ident \<noteq> NULL"
  shows "fst (user_perthread_libspace cfg R ident
               (libspace_calls cfg R others (snd (user_perthread_libspace cfg R ident w)))) =
         fst (user_perthread_libspace cfg R ident w)"
proof (cases "main_running w = 0 \<or> ident = main_obj")
  case True
  have "main_running (libspace_calls cfg R others w) = main_running w"
    by (rule libspace_calls_main_running)
  with True show ?thesis
    by (auto simp: user_perthread_libspace_def)
next
  case False
  then have mr: "main_running w \<noteq> 0" and nm: "ident \<noteq> main_obj" by auto
  let ?w1 = "snd (user_perthread_libspace cfg R ident w)"
  let ?w2 = "libspace_calls cfg R others ?w1"
  have len: "length (os_libspace_id w) = OS_THREAD_LIBSPACE_NUM cfg"
    using wf by (simp add: libspace_wf_def)
  have wf1: "libspace_wf cfg ?w1" by (rule libspace_wf_preserved [OF wf])
  have wf2: "libspace_wf cfg ?w2" by (rule libspace_calls_wf [OF wf1])
  then have len2: "length (os_libspace_id ?w2) = OS_THREAD_LIBSPACE_NUM cfg"
    by (simp add: libspace_wf_def)
  have mr2: "main_running ?w2 \<noteq> 0"
    using mr by (simp add: libspace_calls_main_running libspace_main_running)
  have "first_slot ident 0 (os_libspace_id ?w2) = first_slot ident 0 (os_libspace_id ?w1)"
    using settled_calls [OF wf1 settled_after_call(1) [OF len mr nm] nn] by simp
  also have "\<dots> = first_slot ident 0 (os_libspace_id w)"
    by (rule settled_after_call(2) [OF len mr nm])
  finally show ?thesis
    by (simp add: libspace_ptr [OF len mr nm] libspace_ptr [OF len2 mr2 nm] Let_def)
qed

lemma takeWhile_claimed:
  "NULL \<notin> set c \<Longrightarrow> takeWhile (\<lambda>x. x \<noteq> NULL) (c @ replicate m NULL) = c"
  by (auto simp: takeWhile_append)

lemma libspace_inv_iff:
  "libspace_inv cfg w =
     (libspace_wf cfg w \<and>
      (\<exists>c m. os_libspace_id w = c @ replicate m NULL \<and> NULL \<notin> set c \<and> distinct c \<and>
             main_obj \<notin> set c))"
proof
  assume inv: "libspace_inv cfg w"
  let ?c = "claimed_slots w"
  have "NULL \<notin> set ?c"
    using set_takeWhileD [of NULL "\<lambda>x. x \<noteq> NULL" "os_libspace_id w"]
    by (auto simp: claimed_slots_def)
  moreover have "main_obj \<notin> set ?c"
    using inv set_takeWhileD [of main_obj "\<lambda>x. x \<noteq> NULL" "os_libspace_id w"]
    by (auto simp: claimed_slots_def libspace_inv_def)
  ultimately show "libspace_wf cfg w \<and>
      (\<exists>c m. os_libspace_id w = c @ replicate m NULL \<and> NULL \<notin> set c \<and> distinct c \<and>
             main_obj \<notin> set c)"
    using inv unfolding libspace_inv_def by blast
next
  assume r: "libspace_wf cfg w \<and>
      (\<exists>c m. os_libspace_id w = c @ replicate m NULL \<and> NULL \<notin> set c \<and> distinct c \<and>
             main_obj \<notin> set c)"
  then obtain c m where ids: "os_libspace_id w = c @ replicate m NULL"
    and c: "NULL \<notin> set c" "distinct c" "main_obj \<notin> set c" by blast
  have cl: "claimed_slots w = c"
    by (simp add: claimed_slots_def ids takeWhile_claimed [OF c(1)])
  have "length c + m = OS_THREAD_LIBSPACE_NUM cfg"
    using r ids by (simp add: libspace_wf_def)
  then have "OS_THREAD_LIBSPACE_NUM cfg - length c = m" by simp
  then show "libspace_inv cfg w"
    using r c by (simp add: libspace_inv_def cl ids)
qed

lemma first_slot_claimed:
  assumes "NULL \<notin> set c" "ident \<notin> set c"
  shows "first_slot ident 0 (c @ replicate m NULL) = length c"
proof -
  have "takeWhile (\<lambda>x. x \<noteq> NULL \<and> x \<noteq> ident) (c @ replicate m NULL) = c"
    using assms by (auto simp: takeWhile_append)
  then show ?thesis by (simp add: first_slot_def)
qed

lemma first_slot_present:
  assumes "NULL \<notin> set c" "ident \<in> set c"
  shows "first_slot ident 0 (c @ replicate m NULL) < length c \<and>
         (c @ replicate m NULL) ! first_slot ident 0 (c @ replicate m NULL) \<noteq> NULL"
proof -
  let ?P = "\<lambda>x. x \<noteq> NULL \<and> x \<noteq> ident"
  have tw: "takeWhile ?P (c @ replicate m NULL) = takeWhile ?P c"
    using assms by (auto simp: takeWhile_append)
  have "takeWhile ?P c \<noteq> c"
    using assms(2) by auto
  then have "length (takeWhile ?P c) \<noteq> length c"
    by (metis takeWhile_eq_take take_all order_refl)
  then have lt: "length (takeWhile ?P c) < length c"
    using length_takeWhile_le [of ?P c] by simp
  then have "c ! length (takeWhile ?P c) \<noteq> NULL"
    using assms(1) by (metis nth_mem)
  then show ?thesis using lt by (simp add: first_slot_def tw nth_append)
qed

lemma claim_step:
  fixes c :: "osThreadId_t list" and m :: nat
  assumes c: "NULL \<notin> set c" "distinct c" "main_obj \<notin> set c" and nm: "ident \<noteq> main_obj"
  defines "ids \<equiv> c @ replicate m NULL"
  defines "k \<equiv> first_slot ident 0 ids"
  shows "\<exists>c' m'. (if k < length ids \<and> ids ! k = NULL then ids[k := ident] else ids) =
                   c' @ replicate m' NULL \<and>
                 NULL \<notin> set c' \<and> distinct c' \<and> main_obj \<notin> set c' \<and>
                 take (length c) c' = c"
proof (cases "k < length ids \<and> ids ! k = NULL")
  case False
  then show ?thesis using c ids_def by auto
next
  case True
  have notin: "ident \<notin> set c"
    using True first_slot_present [OF c(1), of ident m] by (auto simp: k_def ids_def)
  then have k: "k = length c"
    by (simp add: k_def ids_def first_slot_claimed [OF c(1)])
  then obtain m' where m: "m = Suc m'" using True by (cases m) (auto simp: ids_def)
  have upd: "ids[k := ident] = c @ ident # replicate m' NULL"
    by (simp add: ids_def k m)
  show ?thesis
  proof (cases "ident = NULL")
    case True
    then have "ids[k := ident] = c @ replicate m NULL" using upd by (simp add: m)
    then show ?thesis using c \<open>k < length ids \<and> ids ! k = NULL\<close> by auto
  next
    case False
    have "ids[k := ident] = (c @ [ident]) @ replicate m' NULL" by (simp add: upd)
    moreover have "NULL \<notin> set (c @ [ident])" using c False by auto
    moreover have "distinct (c @ [ident])" using c notin by simp
    moreover have "main_obj \<notin> set (c @ [ident])" using c nm by auto
    moreover have "take (length c) (c @ [ident]) = c" by simp
    ultimately show ?thesis using True by (metis (full_types))
  qed
qed

lemma libspace_inv_step:
  assumes inv: "libspace_inv cfg w"
  shows "libspace_inv cfg (snd (user_perthread_libspace cfg R ident w)) \<and>
         take (length (claimed_slots w))
           (claimed_slots (snd (user_perthread_libspace cfg R ident w))) = claimed_slots w"
proof (cases "main_running w = 0 \<or> ident = main_obj")
  case True
  then show ?thesis using inv by (auto simp: user_perthread_libspace_def)
next
  case False
  then have mr: "main_running w \<noteq> 0" and nm: "ident \<noteq> main_obj" by auto
  have wf: "libspace_wf cfg w" using inv by (simp add: libspace_inv_iff)
  then have len: "length (os_libspace_id w) = OS_THREAD_LIBSPACE_NUM cfg"
    by (simp add: libspace_wf_def)
  obtain c m where ids: "os_libspace_id w = c @ replicate m NULL"
    and c: "NULL \<notin> set c" "distinct c" "main_obj \<notin> set c"
    using inv unfolding libspace_inv_iff by blast
  let ?ids = "os_libspace_id w"
  let ?k = "first_slot ident 0 ?ids"
  let ?w1 = "snd (user_perthread_libspace cfg R ident w)"
  have after: "os_libspace_id ?w1 =
      (if ?k < length ?ids \<and> ?ids ! ?k = NULL then ?ids[?k := ident] else ?ids)"
    by (simp add: libspace_ids_after [OF len mr nm] Let_def len)
  have "\<exists>c' m'. os_libspace_id ?w1 = c' @ replicate m' NULL \<and>
                 NULL \<notin> set c' \<and> distinct c' \<and> main_obj \<notin> set c' \<and>
                 take (length c) c' = c"
    unfolding after ids by (rule claim_step [OF c nm])
  then obtain c' m' where ids1: "os_libspace_id ?w1 = c' @ replicate m' NULL"
    and c': "NULL \<notin> set c'" "distinct c'" "main_obj \<notin> set c'" "take (length c) c' = c"
    by blast
  have "claimed_slots w = c" "claimed_slots ?w1 = c'"
    by (simp_all add: claimed_slots_def ids ids1 takeWhile_claimed c(1) c'(1))
  moreover have "libspace_inv cfg ?w1"
    unfolding libspace_inv_iff
    using libspace_wf_preserved [OF wf, of R ident] ids1 c' by blast
  ultimately show ?thesis using c'(4) by simp
qed

lemma libspace_inv_calls:
  "libspace_inv cfg w \<Longrightarrow>
   libspace_inv cfg (libspace_calls cfg R idents w) \<and>
   take (length (claimed_slots w)) (claimed_slots (libspace_calls cfg R idents w)) =
     claimed_slots w"
proof (induction idents arbitrary: w)
  case Nil
  then show ?case by (simp add: libspace_calls_def)
next
  case (Cons i "is")
  let ?w1 = "snd (user_perthread_libspace cfg R i w)"
  let ?w2 = "libspace_calls cfg R is ?w1"
  have s: "libspace_inv cfg ?w1"
    "take (length (claimed_slots w)) (claimed_slots ?w1) = claimed_slots w"
    using libspace_inv_step [OF Cons.prems, of R i] by simp_all
  have r: "libspace_inv cfg ?w2"
    "take (length (claimed_slots ?w1)) (claimed_slots ?w2) = claimed_slots ?w1"
    using Cons.IH [OF s(1)] by simp_all
  have "length (claimed_slots w) \<le> length (claimed_slots ?w1)"
    using s(2) by (metis length_take min.cobounded1)
  then have "take (length (claimed_slots w)) (claimed_slots ?w2) =
      take (length (claimed_slots w)) (take (length (claimed_slots ?w1)) (claimed_slots ?w2))"
    by (simp add: min_def)
  then show ?case using r s by (simp add: libspace_calls_Cons)
qed

lemma libspace_inv_one_slot:
  assumes inv: "libspace_inv cfg w"
    and i: "i < OS_THREAD_LIBSPACE_NUM cfg" and j: "j < OS_THREAD_LIBSPACE_NUM cfg"
    and eq: "os_libspace_id w ! i = os_libspace_id w ! j" and nn: "os_libspace_id w ! i \<noteq> NULL"
  shows "i = j"
proof -
  obtain c m where ids: "os_libspace_id w = c @ replicate m NULL"
    and c: "NULL \<notin> set c" "distinct c" "main_obj \<notin> set c"
    using inv unfolding libspace_inv_iff by blast
  have len: "length c + m = OS_THREAD_LIBSPACE_NUM cfg"
    using inv ids by (simp add: libspace_inv_iff libspace_wf_def)
  have "i < length c" using nn i len by (auto simp: ids nth_append split: if_splits)
  moreover have "j < length c" using nn eq j len by (auto simp: ids nth_append split: if_splits)
  ultimately show ?thesis using eq c(2) by (simp add: ids nth_append nth_eq_iff_index_eq)
qed

lemma libspace_inv_initial: "libspace_inv cfg (initial_world cfg r m)"
  by (simp add: libspace_inv_def libspace_wf_def claimed_slots_def initial_world_def
      takeWhile_replicate)

lemma slot_of_settled: "slot_of ident k ids \<Longrightarrow> settled ident ids"
  by (simp add: slot_of_def settled_def)

lemma libspace_state_after:
  assumes "length (os_libspace_id w) = OS_THREAD_LIBSPACE_NUM cfg"
    "main_running w \<noteq> 0" "ident \<noteq> main_obj"
  shows "os_libspace (snd (user_perthread_libspace cfg R ident w)) =
     (let k = first_slot ident 0 (os_libspace_id w) in
      if k < OS_THREAD_LIBSPACE_NUM cfg \<and> os_libspace_id w ! k = NULL
      then (os_libspace w)[k := R k] else os_libspace w)"
  by (simp add: libspace_char [OF assms] Let_def osRtxErrorNotify_def log_def)

lemma slot_of_owner_call:
  assumes wf: "libspace_wf cfg w" and mr: "main_running w \<noteq> 0"
    and nm: "ident \<noteq> main_obj" and nn: "ident \<noteq> NULL"
    and own: "slot_of ident k (os_libspace_id w)"
  shows "user_perthread_libspace cfg R ident w = (os_libspace_at k, w)"
proof -
  have len: "length (os_libspace_id w) = OS_THREAD_LIBSPACE_NUM cfg"
    using wf by (simp add: libspace_wf_def)
  show ?thesis
    using own nn len by (simp add: libspace_char [OF len mr nm] Let_def slot_of_def)
qed

lemma slot_of_other_call:
  assumes wf: "libspace_wf cfg w" and nn: "ident \<noteq> NULL"
    and own: "slot_of ident k (os_libspace_id w)"
  shows "slot_of ident k (os_libspace_id (snd (user_perthread_libspace cfg R other w))) \<and>
         os_libspace (snd (user_perthread_libspace cfg R other w)) ! k = os_libspace w ! k"
proof -
  let ?w' = "snd (user_perthread_libspace cfg R other w)"
  have len: "length (os_libspace_id w) = OS_THREAD_LIBSPACE_NUM cfg"
    using wf by (simp add: libspace_wf_def)
  have len': "length (os_libspace_id ?w') = OS_THREAD_LIBSPACE_NUM cfg"
    using libspace_wf_preserved [OF wf, of R other] by (simp add: libspace_wf_def)
  have s: "settled ident (os_libspace_id ?w')"
    and f: "first_slot ident 0 (os_libspace_id ?w') = first_slot ident 0 (os_libspace_id w)"
    using settled_other_call [OF len slot_of_settled [OF own] nn, of R other] by simp_all
  have k: "first_slot ident 0 (os_libspace_id w) = k" "k < OS_THREAD_LIBSPACE_NUM cfg"
    "os_libspace_id w ! k = ident"
    using own len by (simp_all add: slot_of_def)
  have own': "slot_of ident k (os_libspace_id ?w')"
    using s f k len' by (simp add: slot_of_def settled_def Let_def)
  have st: "os_libspace ?w' ! k = os_libspace w ! k"
  proof (cases "main_running w = 0 \<or> other = main_obj")
    case True
    then show ?thesis by (auto simp: user_perthread_libspace_def)
  next
    case False
    then have mr: "main_running w \<noteq> 0" and nm: "other \<noteq> main_obj" by auto
    have "first_slot other 0 (os_libspace_id w) \<noteq> k"
      if "os_libspace_id w ! first_slot other 0 (os_libspace_id w) = NULL"
      using that k(3) nn by auto
    then show ?thesis
      by (auto simp: libspace_state_after [OF len mr nm] Let_def)
  qed
  from own' st show ?thesis by simp
qed

lemma slot_of_calls:
  "libspace_wf cfg w \<Longrightarrow> ident \<noteq> NULL \<Longrightarrow> slot_of ident k (os_libspace_id w) \<Longrightarrow>
   slot_of ident k (os_libspace_id (libspace_calls cfg R others w)) \<and>
   os_libspace (libspace_calls cfg R others w) ! k = os_libspace w ! k"
proof (induction others arbitrary: w)
  case Nil
  then show ?case by (simp add: libspace_calls_def)
next
  case (Cons i "is")
  let ?w1 = "snd (user_perthread_libspace cfg R i w)"
  have s: "slot_of ident k (os_libspace_id ?w1)" "os_libspace ?w1 ! k = os_libspace w ! k"
    using slot_of_other_call [OF Cons.prems(1,2,3), of R i] by simp_all
  show ?case
    using Cons.IH [OF libspace_wf_preserved [OF Cons.prems(1), of R i] Cons.prems(2) s(1)] s(2)
    by (simp add: libspace_calls_Cons)
qed

lemma slot_of_not_given_away:
  assumes wf: "libspace_wf cfg w" and nn: "ident \<noteq> NULL"
    and own: "slot_of ident k (os_libspace_id w)" and other: "other \<noteq> ident"
  shows "fst (user_perthread_libspace cfg R other w) \<noteq> os_libspace_at k"
proof (cases "main_running w = 0 \<or> other = main_obj")
  case True
  then show ?thesis by (auto simp: user_perthread_libspace_def)
next
  case False
  then have mr: "main_running w \<noteq> 0" and nm: "other \<noteq> main_obj" by auto
  have len: "length (os_libspace_id w) = OS_THREAD_LIBSPACE_NUM cfg"
    using wf by (simp add: libspace_wf_def)
  have "first_slot other 0 (os_libspace_id w) \<noteq> k"
    using first_slot_at [of other "os_libspace_id w"] own nn other
    by (auto simp: slot_of_def)
  then show ?thesis
    by (simp add: libspace_ptr [OF len mr nm] Let_def)
qed

lemma libspace_first_call:
  assumes wf: "libspace_wf cfg w" and mr: "main_running w \<noteq> 0"
    and nm: "ident \<noteq> main_obj"
  shows "case fst (user_perthread_libspace cfg R ident w) of
           os_libspace_at k \<Rightarrow>
             slot_of ident k (os_libspace_id (snd (user_perthread_libspace cfg R ident w))) \<and>
             k < OS_THREAD_LIBSPACE_NUM cfg \<and>
             (if os_libspace_id w ! k = NULL
              then snd (user_perthread_libspace cfg R ident w) =
                     w\<lparr>os_libspace_id := (os_libspace_id w)[k := ident],
                       os_libspace := (os_libspace w)[k := R k]\<rparr> \<and>
                   os_libspace (snd (user_perthread_libspace cfg R ident w)) ! k = R k
              else os_libspace_id w ! k = ident \<and>
                   snd (user_perthread_libspace cfg R ident w) = w)
         | global_impure_ptr \<Rightarrow>
             NULL \<notin> set (os_libspace_id w) \<and> ident \<notin> set (os_libspace_id w)"
proof -
  let ?ids = "os_libspace_id w"
  let ?k = "first_slot ident 0 ?ids"
  let ?w1 = "snd (user_perthread_libspace cfg R ident w)"
  have len: "length ?ids = OS_THREAD_LIBSPACE_NUM cfg"
    and lens: "length (os_libspace w) = OS_THREAD_LIBSPACE_NUM cfg"
    using wf by (simp_all add: libspace_wf_def)
  have len1: "length (os_libspace_id ?w1) = OS_THREAD_LIBSPACE_NUM cfg"
    using libspace_wf_preserved [OF wf, of R ident] by (simp add: libspace_wf_def)
  show ?thesis
  proof (cases "?k < OS_THREAD_LIBSPACE_NUM cfg")
    case True
    have p: "fst (user_perthread_libspace cfg R ident w) = os_libspace_at ?k"
      using True by (simp add: libspace_ptr [OF len mr nm] Let_def)
    have at: "?ids ! ?k = NULL \<or> ?ids ! ?k = ident"
      using first_slot_at [of ident ?ids] True len by simp
    have own: "slot_of ident ?k (os_libspace_id ?w1)"
      using settled_after_call [OF len mr nm, of R] True len1
      by (simp add: slot_of_def settled_def Let_def)
    have w1: "?w1 = (if ?ids ! ?k = NULL
        then w\<lparr>os_libspace_id := ?ids[?k := ident],
               os_libspace := (os_libspace w)[?k := R ?k]\<rparr> else w)"
      using True by (simp add: libspace_char [OF len mr nm] Let_def)
    show ?thesis
      unfolding p using own True at lens by (auto simp: w1)
  next
    case False
    have p: "fst (user_perthread_libspace cfg R ident w) = global_impure_ptr"
      using False by (simp add: libspace_ptr [OF len mr nm] Let_def)
    have "?ids ! j \<noteq> NULL \<and> ?ids ! j \<noteq> ident" if "j < length ?ids" for j
      using that False len first_slot_before [of j ident ?ids] by simp
    then have "NULL \<notin> set ?ids \<and> ident \<notin> set ?ids"
      by (metis in_set_conv_nth)
    then show ?thesis unfolding p by simp
  qed
qed

text \<open>
  Claim C5, as amended. Before the scheduler has started (\<^verbatim>\<open>main_running\<close> is 0) every
  identity gets \<^verbatim>\<open>_global_impure_ptr\<close>, and so does the main thread's identity at any
  time; in these two cases the world, and with it the slot table, is returned as it
  was, whatever the table holds. Otherwise, for every identity but the null pointer:
  \<^item> The first call returns a slot \<open>k\<close> of the table whose identity entry is now the
    caller's. If the slot was free, the call stored the identity and the initial
    reentrant state in it and changed nothing else; if the slot already held the
    identity, the call changed nothing.
  \<^item> After any calls for any identities, slot \<open>k\<close> still holds the identity and the same
    state, a call with the identity returns slot \<open>k\<close> again and changes nothing, and a
    call with any other identity does not return slot \<open>k\<close>.
  \<^item> If instead the first call returns \<^verbatim>\<open>_global_impure_ptr\<close>, no slot was free and none
    held the identity, and later calls with the identity return \<^verbatim>\<open>_global_impure_ptr\<close>
    again.
  For every identity, the null pointer included, a call that follows a call with the
  same identity at once returns the same pointer.
\<close>

theorem libspace_same_instance:
  "libspace_wf cfg w \<Longrightarrow>
   (main_running w = 0 \<longrightarrow>
      user_perthread_libspace cfg R ident w = (global_impure_ptr, w)) \<and>
   user_perthread_libspace cfg R main_obj w = (global_impure_ptr, w) \<and>
   main_running (libspace_calls cfg R others w) = main_running w \<and>
   fst (user_perthread_libspace cfg R ident (snd (user_perthread_libspace cfg R ident w))) =
     fst (user_perthread_libspace cfg R ident w) \<and>
   (main_running w \<noteq> 0 \<and> ident \<noteq> main_obj \<and> ident \<noteq> NULL \<longrightarrow>
      claimed_same_instance cfg R ident others w \<and>
      (let (p, w1) = user_perthread_libspace cfg R ident w;
           w2 = libspace_calls cfg R others w1
       in case p of
            os_libspace_at k \<Rightarrow>
              k < OS_THREAD_LIBSPACE_NUM cfg \<and>
              os_libspace_id w1 ! k = ident \<and>
              (if os_libspace_id w ! k = NULL
               then w1 = w\<lparr>os_libspace_id := (os_libspace_id w)[k := ident],
                            os_libspace := (os_libspace w)[k := R k]\<rparr> \<and>
                    os_libspace w1 ! k = R k
               else os_libspace_id w ! k = ident \<and> w1 = w) \<and>
              os_libspace_id w2 ! k = ident \<and>
              os_libspace w2 ! k = os_libspace w1 ! k \<and>
              user_perthread_libspace cfg R ident w2 = (os_libspace_at k, w2) \<and>
              (\<forall>other. other \<noteq> ident \<longrightarrow>
                 fst (user_perthread_libspace cfg R other w2) \<noteq> os_libspace_at k)
          | global_impure_ptr \<Rightarrow>
              NULL \<notin> set (os_libspace_id w) \<and> ident \<notin> set (os_libspace_id w) \<and>
              fst (user_perthread_libspace cfg R ident w2) = global_impure_ptr))"
proof -
  assume wf: "libspace_wf cfg w"
  have early: "main_running w = 0 \<longrightarrow>
      user_perthread_libspace cfg R ident w = (global_impure_ptr, w)"
    "user_perthread_libspace cfg R main_obj w = (global_impure_ptr, w)"
    by (simp_all add: user_perthread_libspace_def)
  have mrk: "main_running (libspace_calls cfg R others w) = main_running w"
    by (rule libspace_calls_main_running)
  have rep: "fst (user_perthread_libspace cfg R ident
        (snd (user_perthread_libspace cfg R ident w))) =
      fst (user_perthread_libspace cfg R ident w)"
    by (rule libspace_repeat [OF wf])
  have main: "claimed_same_instance cfg R ident others w \<and>
      (let (p, w1) = user_perthread_libspace cfg R ident w;
           w2 = libspace_calls cfg R others w1
       in case p of
            os_libspace_at k \<Rightarrow>
              k < OS_THREAD_LIBSPACE_NUM cfg \<and>
              os_libspace_id w1 ! k = ident \<and>
              (if os_libspace_id w ! k = NULL
               then w1 = w\<lparr>os_libspace_id := (os_libspace_id w)[k := ident],
                            os_libspace := (os_libspace w)[k := R k]\<rparr> \<and>
                    os_libspace w1 ! k = R k
               else os_libspace_id w ! k = ident \<and> w1 = w) \<and>
              os_libspace_id w2 ! k = ident \<and>
              os_libspace w2 ! k = os_libspace w1 ! k \<and>
              user_perthread_libspace cfg R ident w2 = (os_libspace_at k, w2) \<and>
              (\<forall>other. other \<noteq> ident \<longrightarrow>
                 fst (user_perthread_libspace cfg R other w2) \<noteq> os_libspace_at k)
          | global_impure_ptr \<Rightarrow>
              NULL \<notin> set (os_libspace_id w) \<and> ident \<notin> set (os_libspace_id w) \<and>
              fst (user_perthread_libspace cfg R ident w2) = global_impure_ptr)"
    if mr: "main_running w \<noteq> 0" and nm: "ident \<noteq> main_obj" and nn: "ident \<noteq> NULL"
  proof -
    let ?p = "fst (user_perthread_libspace cfg R ident w)"
    let ?w1 = "snd (user_perthread_libspace cfg R ident w)"
    let ?w2 = "libspace_calls cfg R others ?w1"
    have wf1: "libspace_wf cfg ?w1" by (rule libspace_wf_preserved [OF wf])
    have wf2: "libspace_wf cfg ?w2" by (rule libspace_calls_wf [OF wf1])
    have mr2: "main_running ?w2 \<noteq> 0"
      using mr by (simp add: libspace_calls_main_running libspace_main_running)
    have same: "fst (user_perthread_libspace cfg R ident ?w2) = ?p"
      by (rule libspace_repeat_interleaved [OF wf nn])
    then have csi: "claimed_same_instance cfg R ident others w"
      by (simp add: claimed_same_instance_def)
    show ?thesis
    proof (cases ?p)
      case global_impure_ptr
      then show ?thesis
        using libspace_first_call [OF wf mr nm, of R] same csi
        by (simp add: split_beta Let_def)
    next
      case (os_libspace_at k)
      have fc0: "slot_of ident k (os_libspace_id ?w1) \<and> k < OS_THREAD_LIBSPACE_NUM cfg \<and>
        (if os_libspace_id w ! k = NULL
         then ?w1 = w\<lparr>os_libspace_id := (os_libspace_id w)[k := ident],
                       os_libspace := (os_libspace w)[k := R k]\<rparr> \<and>
              os_libspace ?w1 ! k = R k
         else os_libspace_id w ! k = ident \<and> ?w1 = w)"
        using libspace_first_call [OF wf mr nm, of R]
        unfolding os_libspace_at reent_ptr.case .
      have fc: "slot_of ident k (os_libspace_id ?w1)" "k < OS_THREAD_LIBSPACE_NUM cfg"
        "if os_libspace_id w ! k = NULL
         then ?w1 = w\<lparr>os_libspace_id := (os_libspace_id w)[k := ident],
                       os_libspace := (os_libspace w)[k := R k]\<rparr> \<and>
              os_libspace ?w1 ! k = R k
         else os_libspace_id w ! k = ident \<and> ?w1 = w"
        using fc0 by blast+
      have own2: "slot_of ident k (os_libspace_id ?w2)"
        and st2: "os_libspace ?w2 ! k = os_libspace ?w1 ! k"
        using slot_of_calls [OF wf1 nn fc(1), of R others] by simp_all
      have again: "user_perthread_libspace cfg R ident ?w2 = (os_libspace_at k, ?w2)"
        by (rule slot_of_owner_call [OF wf2 mr2 nm nn own2])
      have others: "\<forall>other. other \<noteq> ident \<longrightarrow>
          fst (user_perthread_libspace cfg R other ?w2) \<noteq> os_libspace_at k"
        using slot_of_not_given_away [OF wf2 nn own2] by blast
      have id1: "os_libspace_id ?w1 ! k = ident" and id2: "os_libspace_id ?w2 ! k = ident"
        using fc(1) own2 by (simp_all add: slot_of_def)
      show ?thesis
        unfolding split_beta Let_def os_libspace_at reent_ptr.case
        using csi fc(2,3) id1 id2 st2 again others by blast
    qed
  qed
  from early mrk rep main show ?thesis by blast
qed

theorem libspace_same_instance_witness:
  "libspace_wf example_config (example_world [thread 5, NULL]) \<and>
   main_running (example_world [thread 5, NULL]) \<noteq> 0 \<and>
   thread 7 \<noteq> main_obj \<and> thread 7 \<noteq> NULL \<and>
   fst (user_perthread_libspace example_config example_REENT_INIT (thread 7)
         (example_world [thread 5, NULL])) = os_libspace_at 1 \<and>
   os_libspace_id (snd (user_perthread_libspace example_config example_REENT_INIT (thread 7)
         (example_world [thread 5, NULL]))) = [thread 5, thread 7] \<and>
   os_libspace (snd (user_perthread_libspace example_config example_REENT_INIT (thread 7)
         (example_world [thread 5, NULL]))) = [1, 0] \<and>
   user_perthread_libspace example_config example_REENT_INIT (thread 7)
     (libspace_calls example_config example_REENT_INIT [thread 8, thread 5]
        (snd (user_perthread_libspace example_config example_REENT_INIT (thread 7)
               (example_world [thread 5, NULL])))) =
     (os_libspace_at 1,
      libspace_calls example_config example_REENT_INIT [thread 8, thread 5]
        (snd (user_perthread_libspace example_config example_REENT_INIT (thread 7)
               (example_world [thread 5, NULL])))) \<and>
   os_libspace (libspace_calls example_config example_REENT_INIT [thread 8, thread 5]
        (snd (user_perthread_libspace example_config example_REENT_INIT (thread 7)
               (example_world [thread 5, NULL])))) ! 1 = 0 \<and>
   fst (user_perthread_libspace example_config example_REENT_INIT (thread 5)
     (libspace_calls example_config example_REENT_INIT [thread 8, thread 5]
        (snd (user_perthread_libspace example_config example_REENT_INIT (thread 7)
               (example_world [thread 5, NULL]))))) \<noteq> os_libspace_at 1"
proof -
  let ?w = "example_world [thread 5, NULL]"
  let ?w1 = "snd (user_perthread_libspace example_config example_REENT_INIT (thread 7) ?w)"
  let ?w2 = "libspace_calls example_config example_REENT_INIT [thread 8, thread 5] ?w1"
  have wf: "libspace_wf example_config ?w"
    by (simp add: libspace_wf_def example_world_def initial_world_def example_config_def)
  have mr: "main_running ?w \<noteq> 0" by (simp add: example_world_def)
  have first: "fst (user_perthread_libspace example_config example_REENT_INIT (thread 7) ?w) =
      os_libspace_at 1"
    by (simp add: user_perthread_libspace_def libspace_scan.simps example_world_def
        initial_world_def example_config_def)
  have tab: "os_libspace_id ?w1 = [thread 5, thread 7]" "os_libspace ?w1 = [1, 0]"
    by (simp_all add: user_perthread_libspace_def libspace_scan.simps example_world_def
        initial_world_def example_config_def example_REENT_INIT_def numeral_2_eq_2)
  have inst: "let (p, w1) = user_perthread_libspace example_config example_REENT_INIT
                   (thread 7) ?w;
        w2 = libspace_calls example_config example_REENT_INIT [thread 8, thread 5] w1
       in case p of
            os_libspace_at k \<Rightarrow>
              k < OS_THREAD_LIBSPACE_NUM example_config \<and>
              os_libspace_id w1 ! k = thread 7 \<and>
              (if os_libspace_id ?w ! k = NULL
               then w1 = ?w\<lparr>os_libspace_id := (os_libspace_id ?w)[k := thread 7],
                            os_libspace := (os_libspace ?w)[k := example_REENT_INIT k]\<rparr> \<and>
                    os_libspace w1 ! k = example_REENT_INIT k
               else os_libspace_id ?w ! k = thread 7 \<and> w1 = ?w) \<and>
              os_libspace_id w2 ! k = thread 7 \<and>
              os_libspace w2 ! k = os_libspace w1 ! k \<and>
              user_perthread_libspace example_config example_REENT_INIT (thread 7) w2 =
                (os_libspace_at k, w2) \<and>
              (\<forall>other. other \<noteq> thread 7 \<longrightarrow>
                 fst (user_perthread_libspace example_config example_REENT_INIT other w2) \<noteq>
                 os_libspace_at k)
          | global_impure_ptr \<Rightarrow>
              NULL \<notin> set (os_libspace_id ?w) \<and> thread 7 \<notin> set (os_libspace_id ?w) \<and>
              fst (user_perthread_libspace example_config example_REENT_INIT (thread 7) w2) =
                global_impure_ptr"
    using libspace_same_instance [OF wf, where R = example_REENT_INIT and ident = "thread 7"
        and others = "[thread 8, thread 5]"] mr
    by simp
  have again: "user_perthread_libspace example_config example_REENT_INIT (thread 7) ?w2 =
      (os_libspace_at 1, ?w2)"
    and st: "os_libspace ?w2 ! 1 = os_libspace ?w1 ! 1"
    and oth: "\<forall>other. other \<noteq> thread 7 \<longrightarrow>
        fst (user_perthread_libspace example_config example_REENT_INIT other ?w2) \<noteq>
        os_libspace_at 1"
    using inst unfolding split_beta Let_def first reent_ptr.case by blast+
  have o5: "fst (user_perthread_libspace example_config example_REENT_INIT (thread 5) ?w2) \<noteq>
      os_libspace_at 1"
    using oth by simp
  show ?thesis
    using wf mr first tab again st o5 by simp
qed

text \<open>
  Claim C5 as stated fails for the null pointer, which the table uses as the mark of a
  free slot: with two free slots, a call with the null pointer returns slot 0 and leaves
  it free; a call for thread 8 then claims slot 0; and the next call with the null
  pointer returns slot 1.
\<close>

theorem libspace_null_identity_counterexample:
  "\<not> claimed_same_instance example_config example_REENT_INIT NULL [thread 8]
       (example_world [NULL, NULL]) \<and>
   fst (user_perthread_libspace example_config example_REENT_INIT NULL
         (example_world [NULL, NULL])) = os_libspace_at 0 \<and>
   fst (user_perthread_libspace example_config example_REENT_INIT NULL
         (libspace_calls example_config example_REENT_INIT [thread 8]
            (snd (user_perthread_libspace example_config example_REENT_INIT NULL
                   (example_world [NULL, NULL]))))) = os_libspace_at 1"
proof -
  have a: "fst (user_perthread_libspace example_config example_REENT_INIT NULL
         (example_world [NULL, NULL])) = os_libspace_at 0"
    by (simp add: user_perthread_libspace_def libspace_scan.simps example_world_def
        initial_world_def example_config_def)
  have b: "fst (user_perthread_libspace example_config example_REENT_INIT NULL
         (libspace_calls example_config example_REENT_INIT [thread 8]
            (snd (user_perthread_libspace example_config example_REENT_INIT NULL
                   (example_world [NULL, NULL]))))) = os_libspace_at 1"
    by (simp add: libspace_calls_def user_perthread_libspace_def libspace_scan.simps
        example_world_def initial_world_def example_config_def)
  show ?thesis
    by (simp add: claimed_same_instance_def a b)
qed

text \<open>
  Claim C6. When the scheduler has started, no slot is free, and the identity is neither
  the main thread's nor in the table, \<^verbatim>\<open>__user_perthread_libspace\<close> calls
  \<^verbatim>\<open>osRtxErrorNotify\<close> once with \<^verbatim>\<open>osRtxErrorClibSpace\<close> and the identity, and
  returns \<^verbatim>\<open>_global_impure_ptr\<close>. Nothing but the trace changes: no slot's identity or
  state is overwritten. (The identities in the table need not even be distinct.)
\<close>

theorem libspace_table_full:
  "libspace_wf cfg w \<Longrightarrow> main_running w \<noteq> 0 \<Longrightarrow> ident \<noteq> main_obj \<Longrightarrow>
   NULL \<notin> set (os_libspace_id w) \<Longrightarrow> ident \<notin> set (os_libspace_id w) \<Longrightarrow>
   (let (p, w') = user_perthread_libspace cfg R ident w in
      p = global_impure_ptr \<and>
      w' = w\<lparr>trace := trace w @ [Call_osRtxErrorNotify (osRtxErrorClibSpace cfg) ident]\<rparr> \<and>
      events_since w w' = [Call_osRtxErrorNotify (osRtxErrorClibSpace cfg) ident] \<and>
      os_libspace_id w' = os_libspace_id w \<and>
      os_libspace w' = os_libspace w)"
proof -
  assume wf: "libspace_wf cfg w" and mr: "main_running w \<noteq> 0" and nm: "ident \<noteq> main_obj"
    and full: "NULL \<notin> set (os_libspace_id w)" and new: "ident \<notin> set (os_libspace_id w)"
  have len: "length (os_libspace_id w) = OS_THREAD_LIBSPACE_NUM cfg"
    using wf by (simp add: libspace_wf_def)
  have "first_slot ident 0 (os_libspace_id w) = length (os_libspace_id w)"
    by (rule first_slot_full) (use full new in \<open>metis nth_mem\<close>)
  then show ?thesis
    by (simp add: libspace_char [OF len mr nm] Let_def len osRtxErrorNotify_def log_def
        events_since_def)
qed

theorem libspace_table_full_witness:
  "libspace_wf example_config (example_world [thread 11, thread 12]) \<and>
   main_running (example_world [thread 11, thread 12]) \<noteq> 0 \<and>
   thread 13 \<noteq> main_obj \<and>
   NULL \<notin> set (os_libspace_id (example_world [thread 11, thread 12])) \<and>
   thread 13 \<notin> set (os_libspace_id (example_world [thread 11, thread 12])) \<and>
   fst (user_perthread_libspace example_config (\<lambda>n. 0) (thread 13)
         (example_world [thread 11, thread 12])) = global_impure_ptr \<and>
   trace (snd (user_perthread_libspace example_config (\<lambda>n. 0) (thread 13)
         (example_world [thread 11, thread 12]))) = [Call_osRtxErrorNotify 3 (thread 13)] \<and>
   os_libspace_id (snd (user_perthread_libspace example_config (\<lambda>n. 0) (thread 13)
         (example_world [thread 11, thread 12]))) = [thread 11, thread 12]"
proof -
  let ?w = "example_world [thread 11, thread 12]"
  have wf: "libspace_wf example_config ?w"
    by (simp add: libspace_wf_def example_world_def initial_world_def example_config_def)
  have mr: "main_running ?w \<noteq> 0" by (simp add: example_world_def)
  have nm: "thread 13 \<noteq> main_obj" by simp
  have full: "NULL \<notin> set (os_libspace_id ?w)" by (simp add: example_world_def)
  have new: "thread 13 \<notin> set (os_libspace_id ?w)" by (simp add: example_world_def)
  have c: "osRtxErrorClibSpace example_config = 3" "trace ?w = []"
    "os_libspace_id ?w = [thread 11, thread 12]"
    by (simp_all add: example_config_def example_world_def initial_world_def)
  show ?thesis
    using libspace_table_full [OF wf mr nm full new, of "\<lambda>n. 0"] wf mr full new
    by (simp add: c split_beta)
qed

text \<open>
  Claim C7. The table at reset satisfies the invariant, and every sequence of calls of
  \<^verbatim>\<open>__user_perthread_libspace\<close> keeps it. Under the invariant no identity other than
  the null pointer is in two slots, the main thread's identity is in no slot, and the
  slots claimed before the calls still hold the same identities after them.
\<close>

theorem libspace_one_slot_per_identity:
  "libspace_inv cfg (initial_world cfg r m) \<and>
   (libspace_inv cfg w \<longrightarrow>
      (let w' = libspace_calls cfg R idents w in
         libspace_inv cfg w' \<and>
         (\<forall>i < OS_THREAD_LIBSPACE_NUM cfg. \<forall>j < OS_THREAD_LIBSPACE_NUM cfg.
            os_libspace_id w' ! i = os_libspace_id w' ! j \<and> os_libspace_id w' ! i \<noteq> NULL
            \<longrightarrow> i = j) \<and>
         main_obj \<notin> set (os_libspace_id w') \<and>
         take (length (claimed_slots w)) (os_libspace_id w') = claimed_slots w))"
proof (intro conjI impI)
  show "libspace_inv cfg (initial_world cfg r m)"
    by (rule libspace_inv_initial)
next
  assume inv: "libspace_inv cfg w"
  let ?w' = "libspace_calls cfg R idents w"
  have inv': "libspace_inv cfg ?w'"
    and kept: "take (length (claimed_slots w)) (claimed_slots ?w') = claimed_slots w"
    using libspace_inv_calls [OF inv, of R idents] by simp_all
  have one: "\<forall>i < OS_THREAD_LIBSPACE_NUM cfg. \<forall>j < OS_THREAD_LIBSPACE_NUM cfg.
      os_libspace_id ?w' ! i = os_libspace_id ?w' ! j \<and> os_libspace_id ?w' ! i \<noteq> NULL
      \<longrightarrow> i = j"
    using libspace_inv_one_slot [OF inv'] by blast
  have nomain: "main_obj \<notin> set (os_libspace_id ?w')"
    using inv' unfolding libspace_inv_def by blast
  have le: "length (claimed_slots w) \<le> length (claimed_slots ?w')"
    using kept by (metis length_take min.cobounded1)
  have "claimed_slots ?w' = take (length (claimed_slots ?w')) (os_libspace_id ?w')"
    unfolding claimed_slots_def by (rule takeWhile_eq_take)
  then have "take (length (claimed_slots w)) (claimed_slots ?w') =
      take (length (claimed_slots w)) (os_libspace_id ?w')"
    using le by (metis min.absorb1 take_take)
  then have prefix: "take (length (claimed_slots w)) (os_libspace_id ?w') = claimed_slots w"
    using kept by simp
  show "let w' = ?w' in
         libspace_inv cfg w' \<and>
         (\<forall>i < OS_THREAD_LIBSPACE_NUM cfg. \<forall>j < OS_THREAD_LIBSPACE_NUM cfg.
            os_libspace_id w' ! i = os_libspace_id w' ! j \<and> os_libspace_id w' ! i \<noteq> NULL
            \<longrightarrow> i = j) \<and>
         main_obj \<notin> set (os_libspace_id w') \<and>
         take (length (claimed_slots w)) (os_libspace_id w') = claimed_slots w"
    unfolding Let_def using inv' one nomain prefix by blast
qed

theorem libspace_one_slot_per_identity_witness:
  "libspace_inv example_config (example_world [thread 5, NULL]) \<and>
   os_libspace_id (libspace_calls example_config (\<lambda>n. 0) [thread 6, thread 5, thread 9, main_obj]
      (example_world [thread 5, NULL])) = [thread 5, thread 6] \<and>
   libspace_inv example_config
     (libspace_calls example_config (\<lambda>n. 0) [thread 6, thread 5, thread 9, main_obj]
        (example_world [thread 5, NULL]))"
proof -
  have inv: "libspace_inv example_config (example_world [thread 5, NULL])"
    by (simp add: libspace_inv_def libspace_wf_def claimed_slots_def example_world_def
        initial_world_def example_config_def)
  have run: "os_libspace_id (libspace_calls example_config (\<lambda>n. 0)
      [thread 6, thread 5, thread 9, main_obj] (example_world [thread 5, NULL])) =
      [thread 5, thread 6]"
    by (simp add: libspace_calls_def user_perthread_libspace_def libspace_scan.simps
        example_world_def initial_world_def example_config_def osRtxErrorNotify_def log_def)
  have "libspace_inv example_config
     (libspace_calls example_config (\<lambda>n. 0) [thread 6, thread 5, thread 9, main_obj]
        (example_world [thread 5, NULL]))"
    using libspace_one_slot_per_identity [of example_config "0::nat" "\<lambda>a. 0"
        "example_world [thread 5, NULL]" "\<lambda>n. 0" "[thread 6, thread 5, thread 9, main_obj]"]
      inv
    unfolding Let_def by blast
  with inv run show ?thesis by blast
qed

subsection \<open>Locks\<close>

lemma mutexes_created_simps [simp]:
  "mutexes_created [] = []"
  "mutexes_created (e # evs) =
     (case e of Call_osMutexNew a \<Rightarrow> a # mutexes_created evs | _ \<Rightarrow> mutexes_created evs)"
  "mutexes_created (xs @ ys) = mutexes_created xs @ mutexes_created ys"
  by (simp_all add: mutexes_created_def split: event.splits)

lemma errors_reported_simps [simp]:
  "errors_reported [] = []"
  "errors_reported (e # evs) =
     (case e of Call_error msg \<Rightarrow> msg # errors_reported evs | _ \<Rightarrow> errors_reported evs)"
  "errors_reported (xs @ ys) = errors_reported xs @ errors_reported ys"
  by (simp_all add: errors_reported_def split: event.splits)

lemma events_since_append [simp]:
  "trace w' = trace w @ evs \<Longrightarrow> events_since w w' = evs"
  by (simp add: events_since_def)

lemma flags_absorb:
  fixes r p b :: u32
  shows "(r OR p OR b) AND b = b" "(r OR p OR b) AND p = p" "(p OR b) AND b = b" "(p OR b) AND p = p"
  by (simp_all add: bit_eq_iff bit_simps) blast+

lemma init_lock_common_trace:
  "trace (init_lock_common cfg env p n b w) =
   trace w @ [Call_osMutexNew ((lock_attr (lock_mem w p))
      \<lparr>name := n, attr_bits := b, cb_size := sizeof_mutex_obj cfg, cb_mem := lock_obj_ref p\<rparr>)]"
  by (simp add: init_lock_common_def osMutexNew_def log_def Let_def)

lemma init_lock_common_stored:
  "lock_mem (init_lock_common cfg env p n b w) p =
   \<lparr>lock_id = osMutexNew_result env (trace (init_lock_common cfg env p n b w)),
    lock_attr = \<lparr>name = n, attr_bits = b, cb_mem = lock_obj_ref p,
                  cb_size = sizeof_mutex_obj cfg\<rparr>\<rparr>"
  by (simp add: init_lock_common_def osMutexNew_def log_def Let_def)

lemma pre_main_GCC_bits:
  "\<exists>evs. trace (pre_main_GCC cfg env w) = trace w @ evs \<and>
     map attr_bits (mutexes_created evs) =
       replicate 5 (osMutexRecursive cfg OR osMutexPrioInherit cfg OR osMutexRobust cfg) @
       replicate 3 (osMutexPrioInherit cfg OR osMutexRobust cfg)"
  by (simp add: pre_main_GCC_def init_lock_def init_recursive_lock_def init_lock_common_trace
      osMutexNew_def call_def log_def Let_def numeral_3_eq_3 eval_nat_numeral)

lemma pre_main_other_bits:
  "\<exists>evs. trace (pre_main_MICROLIB cfg env w) = trace w @ evs \<and>
     map attr_bits (mutexes_created evs) =
       [osMutexRecursive cfg OR osMutexPrioInherit cfg OR osMutexRobust cfg]"
  "\<exists>evs. trace (pre_main_ARMC cfg env w) = trace w @ evs \<and>
     map attr_bits (mutexes_created evs) =
       [osMutexRecursive cfg OR osMutexPrioInherit cfg OR osMutexRobust cfg]"
  "\<exists>evs. trace (pre_main_IAR cfg env w) = trace w @ evs \<and>
     map attr_bits (mutexes_created evs) =
       [osMutexRecursive cfg OR osMutexPrioInherit cfg OR osMutexRobust cfg]"
  by (simp_all add: pre_main_MICROLIB_def pre_main_ARMC_def pre_main_IAR_def
      osMutexNew_def call_def log_def Let_def)

lemma retarget_lock_init_trace:
  "trace (snd (retarget_lock_init cfg env w)) =
   trace w @ Call_malloc (sizeof_lock cfg) #
     (let a = malloc_result env (trace w @ [Call_malloc (sizeof_lock cfg)]) in
      if a \<noteq> 0
      then [Call_osMutexNew
             \<lparr>name = ''newlib_dynamic_mutex'',
              attr_bits = osMutexPrioInherit cfg OR osMutexRobust cfg,
              cb_mem = lock_obj_ref (lock_heap a), cb_size = sizeof_mutex_obj cfg\<rparr>]
      else [Call_error out_of_memory_msg])"
  by (simp add: retarget_lock_init_def malloc_def init_lock_def init_lock_common_def
      osMutexNew_def error_def log_def Let_def)

lemma retarget_lock_init_recursive_trace:
  "trace (snd (retarget_lock_init_recursive cfg env w)) =
   trace w @ Call_malloc (sizeof_lock cfg) #
     (let a = malloc_result env (trace w @ [Call_malloc (sizeof_lock cfg)]) in
      if a \<noteq> 0
      then [Call_osMutexNew
             \<lparr>name = ''newlib_dynamic_recursive_mutex'',
              attr_bits = osMutexRecursive cfg OR osMutexPrioInherit cfg OR osMutexRobust cfg,
              cb_mem = lock_obj_ref (lock_heap a), cb_size = sizeof_mutex_obj cfg\<rparr>]
      else [Call_error out_of_memory_msg])"
  by (simp add: retarget_lock_init_recursive_def malloc_def init_recursive_lock_def
      init_lock_common_def osMutexNew_def error_def log_def Let_def)

lemma iar_system_Mtxinit_loop_trace:
  "\<exists>evs. trace (snd (iar_system_Mtxinit_loop cfg env index w)) = trace w @ evs \<and>
     (case fst (iar_system_Mtxinit_loop cfg env index w) of
        None \<Rightarrow> evs = []
      | Some mutex \<Rightarrow> \<exists>attr. evs = [Call_osMutexNew attr] \<and>
          attr_bits attr = osMutexRecursive cfg OR osMutexPrioInherit cfg OR osMutexRobust cfg)"
proof (induction cfg env index w rule: iar_system_Mtxinit_loop.induct)
  case (1 cfg env index w)
  show ?case
  proof (cases "index < MAX_LOCK cfg \<and> std_mutex_id_sys w ! index \<noteq> 0")
    case True
    then have "iar_system_Mtxinit_loop cfg env index w =
        iar_system_Mtxinit_loop cfg env (Suc index) w"
      by (subst iar_system_Mtxinit_loop.simps) simp
    then show ?thesis using "1.IH" True by simp
  next
    case False
    then show ?thesis
      by (subst (1 2) iar_system_Mtxinit_loop.simps)
         (auto simp: osMutexNew_def log_def Let_def)
  qed
qed

lemma iar_file_Mtxinit_loop_trace:
  "\<exists>evs. trace (snd (iar_file_Mtxinit_loop cfg env index w)) = trace w @ evs \<and>
     (case fst (iar_file_Mtxinit_loop cfg env index w) of
        None \<Rightarrow> evs = []
      | Some mutex \<Rightarrow> \<exists>attr. evs = [Call_osMutexNew attr] \<and>
          attr_bits attr = osMutexRecursive cfg OR osMutexPrioInherit cfg OR osMutexRobust cfg)"
proof (induction cfg env index w rule: iar_file_Mtxinit_loop.induct)
  case (1 cfg env index w)
  show ?case
  proof (cases "index < FOPEN_MAX \<and> std_mutex_id_file w ! index \<noteq> 0")
    case True
    then have "iar_file_Mtxinit_loop cfg env index w =
        iar_file_Mtxinit_loop cfg env (Suc index) w"
      by (subst iar_file_Mtxinit_loop.simps) simp
    then show ?thesis using "1.IH" True by simp
  next
    case False
    then show ?thesis
      by (subst (1 2) iar_file_Mtxinit_loop.simps)
         (auto simp: osMutexNew_def log_def Let_def)
  qed
qed

lemma iar_system_Mtxinit_bits:
  "\<exists>evs. trace (snd (iar_system_Mtxinit cfg env w)) = trace w @ evs \<and>
     map attr_bits (mutexes_created evs) =
       (case fst (iar_system_Mtxinit cfg env w) of
          Returned mutex \<Rightarrow>
            [osMutexRecursive cfg OR osMutexPrioInherit cfg OR osMutexRobust cfg]
        | NoReturn \<Rightarrow> [])"
  using iar_system_Mtxinit_loop_trace [of cfg env 0 w]
  by (cases "iar_system_Mtxinit_loop cfg env 0 w")
     (auto simp: iar_system_Mtxinit_def error_def log_def split: option.splits)

lemma iar_file_Mtxinit_bits:
  "\<exists>evs. trace (snd (iar_file_Mtxinit cfg env w)) = trace w @ evs \<and>
     map attr_bits (mutexes_created evs) =
       (case fst (iar_file_Mtxinit cfg env w) of
          Returned mutex \<Rightarrow>
            [osMutexRecursive cfg OR osMutexPrioInherit cfg OR osMutexRobust cfg]
        | NoReturn \<Rightarrow> [])"
  using iar_file_Mtxinit_loop_trace [of cfg env 0 w]
  by (cases "iar_file_Mtxinit_loop cfg env 0 w")
     (auto simp: iar_file_Mtxinit_def error_def log_def split: option.splits)

lemma robust_from_bits:
  assumes "trace w' = trace w @ evs"
    and "set (map attr_bits (mutexes_created evs)) \<subseteq>
      {osMutexRecursive cfg OR osMutexPrioInherit cfg OR osMutexRobust cfg,
       osMutexPrioInherit cfg OR osMutexRobust cfg}"
  shows "list_all (robust_and_prio_inherit cfg) (mutexes_created (events_since w w'))"
proof -
  have "robust_and_prio_inherit cfg a" if "a \<in> set (mutexes_created evs)" for a
  proof -
    have "attr_bits a \<in> {osMutexRecursive cfg OR osMutexPrioInherit cfg OR osMutexRobust cfg,
       osMutexPrioInherit cfg OR osMutexRobust cfg}"
      using that assms(2) by auto
    then show ?thesis
      by (auto simp: robust_and_prio_inherit_def flags_absorb)
  qed
  then show ?thesis
    by (simp add: events_since_append [OF assms(1)] list_all_iff)
qed

lemma created_from_bits:
  assumes "\<exists>evs. trace w' = trace w @ evs \<and> map attr_bits (mutexes_created evs) = bs"
    and "set bs \<subseteq>
      {osMutexRecursive cfg OR osMutexPrioInherit cfg OR osMutexRobust cfg,
       osMutexPrioInherit cfg OR osMutexRobust cfg}"
  shows "list_all (robust_and_prio_inherit cfg) (mutexes_created (events_since w w')) \<and>
         length (mutexes_created (events_since w w')) = length bs"
proof -
  obtain evs where t: "trace w' = trace w @ evs"
    and b: "map attr_bits (mutexes_created evs) = bs"
    using assms(1) by blast
  have "list_all (robust_and_prio_inherit cfg) (mutexes_created (events_since w w'))"
    by (rule robust_from_bits [OF t]) (use b assms(2) in simp)
  moreover have "length (mutexes_created (events_since w w')) = length bs"
    using b by (simp add: events_since_append [OF t] flip: length_map [of attr_bits])
  ultimately show ?thesis by simp
qed

lemma retarget_lock_init_bits:
  "\<exists>evs. trace (snd (retarget_lock_init cfg env w)) = trace w @ evs \<and>
     map attr_bits (mutexes_created evs) =
       (if malloc_result env (trace w @ [Call_malloc (sizeof_lock cfg)]) \<noteq> 0
        then [osMutexPrioInherit cfg OR osMutexRobust cfg] else [])"
  by (simp add: retarget_lock_init_trace Let_def)

lemma retarget_lock_init_recursive_bits:
  "\<exists>evs. trace (snd (retarget_lock_init_recursive cfg env w)) = trace w @ evs \<and>
     map attr_bits (mutexes_created evs) =
       (if malloc_result env (trace w @ [Call_malloc (sizeof_lock cfg)]) \<noteq> 0
        then [osMutexRecursive cfg OR osMutexPrioInherit cfg OR osMutexRobust cfg] else [])"
  by (simp add: retarget_lock_init_recursive_trace Let_def)

text \<open>
  Claim C8. Every call of \<^verbatim>\<open>osMutexNew\<close> made by this layer passes attribute bits that
  include the robust flag and the priority-inheritance flag: the singleton mutex and the
  seven static locks of the GCC \<^verbatim>\<open>pre_main\<close> (eight mutexes), the singleton mutex of the
  MICROLIB, ARMC and IAR \<^verbatim>\<open>pre_main\<close> (one each), the dynamic lock of
  \<^verbatim>\<open>__retarget_lock_init\<close> and of \<^verbatim>\<open>__retarget_lock_init_recursive\<close> (one when
  \<^verbatim>\<open>malloc\<close> succeeds, none otherwise), and the mutex of \<^verbatim>\<open>__iar_system_Mtxinit\<close> and of
  \<^verbatim>\<open>__iar_file_Mtxinit\<close> (one when a slot is free, none otherwise). The three flag values
  are parameters of the configuration.
\<close>

theorem created_mutexes_robust_prio_inherit:
  "list_all (robust_and_prio_inherit cfg)
     (mutexes_created (events_since w (pre_main_GCC cfg env w))) \<and>
   length (mutexes_created (events_since w (pre_main_GCC cfg env w))) = 8 \<and>
   list_all (robust_and_prio_inherit cfg)
     (mutexes_created (events_since w (pre_main_MICROLIB cfg env w))) \<and>
   length (mutexes_created (events_since w (pre_main_MICROLIB cfg env w))) = 1 \<and>
   list_all (robust_and_prio_inherit cfg)
     (mutexes_created (events_since w (pre_main_ARMC cfg env w))) \<and>
   length (mutexes_created (events_since w (pre_main_ARMC cfg env w))) = 1 \<and>
   list_all (robust_and_prio_inherit cfg)
     (mutexes_created (events_since w (pre_main_IAR cfg env w))) \<and>
   length (mutexes_created (events_since w (pre_main_IAR cfg env w))) = 1 \<and>
   list_all (robust_and_prio_inherit cfg)
     (mutexes_created (events_since w (snd (retarget_lock_init cfg env w)))) \<and>
   length (mutexes_created (events_since w (snd (retarget_lock_init cfg env w)))) =
     (if malloc_result env (trace w @ [Call_malloc (sizeof_lock cfg)]) \<noteq> 0 then 1 else 0) \<and>
   list_all (robust_and_prio_inherit cfg)
     (mutexes_created (events_since w (snd (retarget_lock_init_recursive cfg env w)))) \<and>
   length (mutexes_created (events_since w (snd (retarget_lock_init_recursive cfg env w)))) =
     (if malloc_result env (trace w @ [Call_malloc (sizeof_lock cfg)]) \<noteq> 0 then 1 else 0) \<and>
   list_all (robust_and_prio_inherit cfg)
     (mutexes_created (events_since w (snd (iar_system_Mtxinit cfg env w)))) \<and>
   length (mutexes_created (events_since w (snd (iar_system_Mtxinit cfg env w)))) =
     (case fst (iar_system_Mtxinit cfg env w) of Returned mutex \<Rightarrow> 1 | NoReturn \<Rightarrow> 0) \<and>
   list_all (robust_and_prio_inherit cfg)
     (mutexes_created (events_since w (snd (iar_file_Mtxinit cfg env w)))) \<and>
   length (mutexes_created (events_since w (snd (iar_file_Mtxinit cfg env w)))) =
     (case fst (iar_file_Mtxinit cfg env w) of Returned mutex \<Rightarrow> 1 | NoReturn \<Rightarrow> 0)"
proof -
  have gcc: "list_all (robust_and_prio_inherit cfg)
       (mutexes_created (events_since w (pre_main_GCC cfg env w))) \<and>
     length (mutexes_created (events_since w (pre_main_GCC cfg env w))) = 8"
    using created_from_bits [where cfg = cfg, OF pre_main_GCC_bits [of cfg env w]] by simp
  have microlib: "list_all (robust_and_prio_inherit cfg)
       (mutexes_created (events_since w (pre_main_MICROLIB cfg env w))) \<and>
     length (mutexes_created (events_since w (pre_main_MICROLIB cfg env w))) = 1"
    using created_from_bits [where cfg = cfg, OF pre_main_other_bits(1) [of cfg env w]] by simp
  have armc: "list_all (robust_and_prio_inherit cfg)
       (mutexes_created (events_since w (pre_main_ARMC cfg env w))) \<and>
     length (mutexes_created (events_since w (pre_main_ARMC cfg env w))) = 1"
    using created_from_bits [where cfg = cfg, OF pre_main_other_bits(2) [of cfg env w]] by simp
  have iar: "list_all (robust_and_prio_inherit cfg)
       (mutexes_created (events_since w (pre_main_IAR cfg env w))) \<and>
     length (mutexes_created (events_since w (pre_main_IAR cfg env w))) = 1"
    using created_from_bits [where cfg = cfg, OF pre_main_other_bits(3) [of cfg env w]] by simp
  have dyn: "list_all (robust_and_prio_inherit cfg)
       (mutexes_created (events_since w (snd (retarget_lock_init cfg env w)))) \<and>
     length (mutexes_created (events_since w (snd (retarget_lock_init cfg env w)))) =
       (if malloc_result env (trace w @ [Call_malloc (sizeof_lock cfg)]) \<noteq> 0 then 1 else 0)"
  proof -
    have "set (if malloc_result env (trace w @ [Call_malloc (sizeof_lock cfg)]) \<noteq> 0
               then [osMutexPrioInherit cfg OR osMutexRobust cfg] else []) \<subseteq>
          {osMutexRecursive cfg OR osMutexPrioInherit cfg OR osMutexRobust cfg,
           osMutexPrioInherit cfg OR osMutexRobust cfg}"
      by auto
    from created_from_bits [where cfg = cfg, OF retarget_lock_init_bits this]
    show ?thesis by simp
  qed
  have dynrec: "list_all (robust_and_prio_inherit cfg)
       (mutexes_created (events_since w (snd (retarget_lock_init_recursive cfg env w)))) \<and>
     length (mutexes_created (events_since w (snd (retarget_lock_init_recursive cfg env w)))) =
       (if malloc_result env (trace w @ [Call_malloc (sizeof_lock cfg)]) \<noteq> 0 then 1 else 0)"
  proof -
    have "set (if malloc_result env (trace w @ [Call_malloc (sizeof_lock cfg)]) \<noteq> 0
               then [osMutexRecursive cfg OR osMutexPrioInherit cfg OR osMutexRobust cfg]
               else []) \<subseteq>
          {osMutexRecursive cfg OR osMutexPrioInherit cfg OR osMutexRobust cfg,
           osMutexPrioInherit cfg OR osMutexRobust cfg}"
      by auto
    from created_from_bits [where cfg = cfg, OF retarget_lock_init_recursive_bits this]
    show ?thesis by simp
  qed
  have sysm: "list_all (robust_and_prio_inherit cfg)
       (mutexes_created (events_since w (snd (iar_system_Mtxinit cfg env w)))) \<and>
     length (mutexes_created (events_since w (snd (iar_system_Mtxinit cfg env w)))) =
       (case fst (iar_system_Mtxinit cfg env w) of Returned mutex \<Rightarrow> 1 | NoReturn \<Rightarrow> 0)"
    using created_from_bits [where cfg = cfg, OF iar_system_Mtxinit_bits [of cfg env w]]
    by (simp split: outcome.splits)
  have filem: "list_all (robust_and_prio_inherit cfg)
       (mutexes_created (events_since w (snd (iar_file_Mtxinit cfg env w)))) \<and>
     length (mutexes_created (events_since w (snd (iar_file_Mtxinit cfg env w)))) =
       (case fst (iar_file_Mtxinit cfg env w) of Returned mutex \<Rightarrow> 1 | NoReturn \<Rightarrow> 0)"
    using created_from_bits [where cfg = cfg, OF iar_file_Mtxinit_bits [of cfg env w]]
    by (simp split: outcome.splits)
  from gcc microlib armc iar dyn dynrec sysm filem show ?thesis by blast
qed

theorem created_mutexes_robust_prio_inherit_witness:
  "map attr_bits (mutexes_created (events_since (initial_world example_config (1::nat) (\<lambda>a. 0))
      (pre_main_GCC example_config example_env (initial_world example_config 1 (\<lambda>a. 0))))) =
     [11, 11, 11, 11, 11, 10, 10, 10] \<and>
   osMutexRobust example_config = 8 \<and> osMutexPrioInherit example_config = 2 \<and>
   list_all (robust_and_prio_inherit example_config)
     (mutexes_created (events_since (initial_world example_config (1::nat) (\<lambda>a. 0))
        (pre_main_GCC example_config example_env (initial_world example_config 1 (\<lambda>a. 0))))) \<and>
   length (mutexes_created (events_since (initial_world example_config (1::nat) (\<lambda>a. 0))
        (pre_main_GCC example_config example_env (initial_world example_config 1 (\<lambda>a. 0))))) = 8"
proof -
  let ?w = "initial_world example_config (1::nat) (\<lambda>a. 0)"
  have bits: "map attr_bits (mutexes_created (events_since ?w
      (pre_main_GCC example_config example_env ?w))) = [11, 11, 11, 11, 11, 10, 10, 10]"
    by (simp add: events_since_def pre_main_GCC_def init_lock_def init_recursive_lock_def
        init_lock_common_trace osMutexNew_def call_def log_def Let_def
        initial_world_def example_config_def)
  have c: "osMutexRobust example_config = 8" "osMutexPrioInherit example_config = 2"
    by (simp_all add: example_config_def)
  show ?thesis
    using created_mutexes_robust_prio_inherit [of example_config ?w example_env] bits c
    by simp
qed

text \<open>
  Claim C9. \<^verbatim>\<open>__retarget_lock_init\<close> and \<^verbatim>\<open>__retarget_lock_init_recursive\<close> first call
  \<^verbatim>\<open>malloc\<close> with the size of \<^verbatim>\<open>struct __lock\<close>. When the result is not null they
  create one kernel mutex whose control block is the new lock's, store its attributes
  and the identifier the kernel returns in the lock, report no error, and return the
  lock. When the result is null they call the fatal-error reporter with the
  out-of-memory message, create no mutex, leave the lock memory as it was, and do not
  return.
\<close>

theorem retarget_lock_init_malloc:
  "(let a = malloc_result env (trace w @ [Call_malloc (sizeof_lock cfg)]);
        (r, w') = retarget_lock_init cfg env w;
        attr = \<lparr>name = ''newlib_dynamic_mutex'',
                attr_bits = osMutexPrioInherit cfg OR osMutexRobust cfg,
                cb_mem = lock_obj_ref (lock_heap a), cb_size = sizeof_mutex_obj cfg\<rparr>
    in if a \<noteq> 0
       then r = Returned (lock_heap a) \<and>
            events_since w w' = [Call_malloc (sizeof_lock cfg), Call_osMutexNew attr] \<and>
            lock_attr (lock_mem w' (lock_heap a)) = attr \<and>
            lock_id (lock_mem w' (lock_heap a)) = osMutexNew_result env (trace w') \<and>
            errors_reported (events_since w w') = []
       else r = NoReturn \<and>
            events_since w w' = [Call_malloc (sizeof_lock cfg), Call_error out_of_memory_msg] \<and>
            errors_reported (events_since w w') = [out_of_memory_msg] \<and>
            mutexes_created (events_since w w') = [] \<and>
            lock_mem w' = lock_mem w) \<and>
   (let a = malloc_result env (trace w @ [Call_malloc (sizeof_lock cfg)]);
        (r, w') = retarget_lock_init_recursive cfg env w;
        attr = \<lparr>name = ''newlib_dynamic_recursive_mutex'',
                attr_bits = osMutexRecursive cfg OR osMutexPrioInherit cfg OR osMutexRobust cfg,
                cb_mem = lock_obj_ref (lock_heap a), cb_size = sizeof_mutex_obj cfg\<rparr>
    in if a \<noteq> 0
       then r = Returned (lock_heap a) \<and>
            events_since w w' = [Call_malloc (sizeof_lock cfg), Call_osMutexNew attr] \<and>
            lock_attr (lock_mem w' (lock_heap a)) = attr \<and>
            lock_id (lock_mem w' (lock_heap a)) = osMutexNew_result env (trace w') \<and>
            errors_reported (events_since w w') = []
       else r = NoReturn \<and>
            events_since w w' = [Call_malloc (sizeof_lock cfg), Call_error out_of_memory_msg] \<and>
            errors_reported (events_since w w') = [out_of_memory_msg] \<and>
            mutexes_created (events_since w w') = [] \<and>
            lock_mem w' = lock_mem w)"
proof -
  let ?a = "malloc_result env (trace w @ [Call_malloc (sizeof_lock cfg)])"
  have ev: "events_since w (snd (retarget_lock_init cfg env w)) =
      Call_malloc (sizeof_lock cfg) #
      (if ?a \<noteq> 0
       then [Call_osMutexNew \<lparr>name = ''newlib_dynamic_mutex'',
                attr_bits = osMutexPrioInherit cfg OR osMutexRobust cfg,
                cb_mem = lock_obj_ref (lock_heap ?a), cb_size = sizeof_mutex_obj cfg\<rparr>]
       else [Call_error out_of_memory_msg])"
    by (rule events_since_append) (simp add: retarget_lock_init_trace Let_def)
  have evr: "events_since w (snd (retarget_lock_init_recursive cfg env w)) =
      Call_malloc (sizeof_lock cfg) #
      (if ?a \<noteq> 0
       then [Call_osMutexNew \<lparr>name = ''newlib_dynamic_recursive_mutex'',
                attr_bits = osMutexRecursive cfg OR osMutexPrioInherit cfg OR osMutexRobust cfg,
                cb_mem = lock_obj_ref (lock_heap ?a), cb_size = sizeof_mutex_obj cfg\<rparr>]
       else [Call_error out_of_memory_msg])"
    by (rule events_since_append) (simp add: retarget_lock_init_recursive_trace Let_def)
  have r: "fst (retarget_lock_init cfg env w) =
      (if ?a \<noteq> 0 then Returned (lock_heap ?a) else NoReturn)"
    "fst (retarget_lock_init_recursive cfg env w) =
      (if ?a \<noteq> 0 then Returned (lock_heap ?a) else NoReturn)"
    by (simp_all add: retarget_lock_init_def retarget_lock_init_recursive_def malloc_def
        error_def log_def Let_def)
  have w': "snd (retarget_lock_init cfg env w) =
      (if ?a \<noteq> 0
       then init_lock_common cfg env (lock_heap ?a) ''newlib_dynamic_mutex''
              (osMutexPrioInherit cfg OR osMutexRobust cfg) (log (Call_malloc (sizeof_lock cfg)) w)
       else log (Call_error out_of_memory_msg) (log (Call_malloc (sizeof_lock cfg)) w))"
    "snd (retarget_lock_init_recursive cfg env w) =
      (if ?a \<noteq> 0
       then init_lock_common cfg env (lock_heap ?a) ''newlib_dynamic_recursive_mutex''
              (osMutexRecursive cfg OR osMutexPrioInherit cfg OR osMutexRobust cfg)
              (log (Call_malloc (sizeof_lock cfg)) w)
       else log (Call_error out_of_memory_msg) (log (Call_malloc (sizeof_lock cfg)) w))"
    by (simp_all add: retarget_lock_init_def retarget_lock_init_recursive_def malloc_def
        init_lock_def init_recursive_lock_def error_def log_def Let_def)
  have mem: "lock_mem (log e v) = lock_mem v" for e and v :: "'a world"
    by (simp add: log_def)
  show ?thesis
    unfolding Let_def split_beta ev evr r
    by (simp add: w' init_lock_common_stored mem)
qed

theorem retarget_lock_init_malloc_witness:
  "fst (retarget_lock_init example_config example_env reset_world) =
     Returned (lock_heap 0x20003000) \<and>
   events_since reset_world (snd (retarget_lock_init example_config example_env reset_world)) =
     [Call_malloc 48,
      Call_osMutexNew \<lparr>name = ''newlib_dynamic_mutex'', attr_bits = 10,
                       cb_mem = lock_obj_ref (lock_heap 0x20003000), cb_size = 28\<rparr>] \<and>
   fst (retarget_lock_init_recursive example_config
          (example_env\<lparr>malloc_result := (\<lambda>tr. 0)\<rparr>) reset_world) = NoReturn \<and>
   errors_reported (events_since reset_world
      (snd (retarget_lock_init_recursive example_config
             (example_env\<lparr>malloc_result := (\<lambda>tr. 0)\<rparr>) reset_world))) =
     [out_of_memory_msg] \<and>
   mutexes_created (events_since reset_world
      (snd (retarget_lock_init_recursive example_config
             (example_env\<lparr>malloc_result := (\<lambda>tr. 0)\<rparr>) reset_world))) = []"
proof -
  have c: "malloc_result example_env = (\<lambda>tr. 0x20003000)"
    "malloc_result (example_env\<lparr>malloc_result := (\<lambda>tr. 0)\<rparr>) = (\<lambda>tr. 0)"
    "sizeof_lock example_config = 48" "sizeof_mutex_obj example_config = 28"
    "osMutexPrioInherit example_config = 2" "osMutexRobust example_config = 8"
    by (simp_all add: example_env_def example_config_def)
  show ?thesis
    using retarget_lock_init_malloc [where w = reset_world and cfg = example_config
        and env = example_env]
      retarget_lock_init_malloc [where w = reset_world and cfg = example_config
        and env = "example_env\<lparr>malloc_result := (\<lambda>tr. 0)\<rparr>"]
    by (simp add: c Let_def split_beta)
qed

text \<open>
  Claim C10. \<^verbatim>\<open>__retarget_lock_close\<close> and \<^verbatim>\<open>__retarget_lock_close_recursive\<close> leave the
  world as it is when the lock pointer is null: no mutex is deleted and nothing is
  freed. With any other pointer they call \<^verbatim>\<open>osMutexDelete\<close> with the identifier stored
  in the lock and then \<^verbatim>\<open>free\<close> with the lock, in this order, and nothing else.
\<close>

theorem retarget_lock_close_null_safe:
  "retarget_lock_close lock_NULL w = w \<and>
   retarget_lock_close_recursive lock_NULL w = w \<and>
   events_since w (retarget_lock_close lock w) =
     (if lock = lock_NULL then []
      else [Call_osMutexDelete (lock_id (lock_mem w lock)), Call_free lock]) \<and>
   events_since w (retarget_lock_close_recursive lock w) =
     (if lock = lock_NULL then []
      else [Call_osMutexDelete (lock_id (lock_mem w lock)), Call_free lock])"
  by (simp add: retarget_lock_close_def retarget_lock_close_recursive_def call_def log_def
      events_since_def)

theorem retarget_lock_close_null_safe_witness:
  "retarget_lock_close lock_NULL reset_world = reset_world \<and>
   events_since reset_world (retarget_lock_close (lock_heap 0x20003000) reset_world) =
     [Call_osMutexDelete 0, Call_free (lock_heap 0x20003000)] \<and>
   events_since reset_world (retarget_lock_close_recursive lock_NULL reset_world) = []"
proof -
  have c: "lock_id (lock_mem reset_world (lock_heap 0x20003000)) = 0"
    by (simp add: reset_world_def initial_world_def)
  show ?thesis
    using retarget_lock_close_null_safe [where w = reset_world and lock = "lock_heap 0x20003000"]
      retarget_lock_close_null_safe [where w = reset_world and lock = lock_NULL]
    by (simp add: c)
qed


subsection \<open>Boot sequence\<close>

lemma boot_steps_simps [simp]:
  "boot_steps [] = []"
  "boot_steps (e # evs) = (if is_boot_step e then e # boot_steps evs else boot_steps evs)"
  "boot_steps (xs @ ys) = boot_steps xs @ boot_steps ys"
  by (simp_all add: boot_steps_def)

lemma trace_set_stack_heap:
  "trace (mbed_set_stack_heap cfg w) = trace w @ [Call_mbed_set_stack_heap]"
  by (simp add: mbed_set_stack_heap_def log_def Let_def split: option.splits)

lemma trace_cpy_nvic:
  "trace (mbed_cpy_nvic cfg w) = trace w @ [Call_mbed_cpy_nvic]"
  by (simp add: mbed_cpy_nvic_def log_def Let_def split: option.splits)

lemma trace_call: "trace (call e w) = trace w @ [e]"
  by (simp add: call_def log_def)

lemma trace_start_main:
  "\<exists>a e. trace (snd (mbed_start_main cfg env w)) =
            trace w @ [Call_mbed_start_main, Call_osThreadNew a, e] \<and>
          (e = Call_error ''Pre main thread not created'' \<or> e = Call_osKernelStart)"
  by (simp add: mbed_start_main_def osThreadNew_def osKernelStart_def error_def log_def
      Let_def split_beta)

lemma steps_via_start_main:
  assumes "trace w4 = trace w @ pre"
  shows "boot_steps (events_since w (snd (mbed_start_main cfg env w4))) =
           boot_steps pre @ [Call_mbed_start_main]"
    and "filter (\<lambda>e. e = Call_platform_post_stackheap_init)
           (events_since w (snd (mbed_start_main cfg env w4))) =
         filter (\<lambda>e. e = Call_platform_post_stackheap_init) pre"
    and "Call_osKernelInitialize \<in> set (events_since w (snd (mbed_start_main cfg env w4))) =
         (Call_osKernelInitialize \<in> set pre)"
proof -
  obtain a e where t: "trace (snd (mbed_start_main cfg env w4)) =
      trace w4 @ [Call_mbed_start_main, Call_osThreadNew a, e]"
    and e: "e = Call_error ''Pre main thread not created'' \<or> e = Call_osKernelStart"
    using trace_start_main [of cfg env w4] by blast
  have ev: "events_since w (snd (mbed_start_main cfg env w4)) =
      pre @ [Call_mbed_start_main, Call_osThreadNew a, e]"
    by (rule events_since_append) (simp add: t assms)
  show "boot_steps (events_since w (snd (mbed_start_main cfg env w4))) =
           boot_steps pre @ [Call_mbed_start_main]"
    using e by (auto simp: ev is_boot_step_def)
  show "filter (\<lambda>e. e = Call_platform_post_stackheap_init)
           (events_since w (snd (mbed_start_main cfg env w4))) =
         filter (\<lambda>e. e = Call_platform_post_stackheap_init) pre"
    using e by (auto simp: ev)
  show "Call_osKernelInitialize \<in> set (events_since w (snd (mbed_start_main cfg env w4))) =
         (Call_osKernelInitialize \<in> set pre)"
    using e by (auto simp: ev)
qed

lemma snd_seq_spin: "snd (seq p (\<lambda>_ w5. (NoReturn, w5))) = snd p"
  by (cases p, cases "fst p") auto

lemma main_init_steps:
  "boot_steps (events_since w (snd (main_init cfg env w))) =
     [Call_mbed_set_stack_heap] @
     (if isolation_owns_vectors cfg then [] else [Call_mbed_cpy_nvic]) @
     [Call_mbed_sdk_init, Call_osKernelInitialize, Call_mbed_start_main]"
  unfolding main_init_def Let_def snd_seq_spin
  by (subst steps_via_start_main(1) [where pre =
        "[Call_mbed_set_stack_heap] @
         (if isolation_owns_vectors cfg then [] else [Call_mbed_cpy_nvic]) @
         [Call_mbed_sdk_init, Call_osKernelInitialize]"])
     (auto simp: trace_call trace_cpy_nvic trace_set_stack_heap isolation_owns_vectors_def
        is_boot_step_def)

lemma rt_entry_steps:
  "boot_steps (events_since w (snd (rt_entry cfg env w))) =
     [Call_mbed_set_stack_heap] @
     (if isolation_owns_vectors cfg then [] else [Call_mbed_cpy_nvic]) @
     [Call_mbed_sdk_init, Call_osKernelInitialize, Call_mbed_start_main]"
  "filter (\<lambda>e. is_boot_step e \<or> e = Call_platform_post_stackheap_init)
     (events_since w (snd (rt_entry cfg env w))) =
     [Call_mbed_set_stack_heap] @
     (if isolation_owns_vectors cfg then [] else [Call_mbed_cpy_nvic]) @
     [Call_mbed_sdk_init, Call_platform_post_stackheap_init, Call_osKernelInitialize,
      Call_mbed_start_main]"
proof -
  let ?pre = "[Call_user_setup_stackheap, Call_mbed_set_stack_heap] @
         (if isolation_owns_vectors cfg then [] else [Call_mbed_cpy_nvic]) @
         [Call_mbed_sdk_init, Call_platform_post_stackheap_init, Call_osKernelInitialize]"
  let ?w4 = "platform_post_stackheap_init (call Call_mbed_sdk_init
      (if \<not> (FEATURE_UVISOR cfg \<and> TARGET_UVISOR_SUPPORTED cfg)
       then mbed_cpy_nvic cfg (mbed_set_stack_heap cfg (call Call_user_setup_stackheap w))
       else mbed_set_stack_heap cfg (call Call_user_setup_stackheap w)))"
  have r: "rt_entry cfg env w = mbed_start_main cfg env ?w4"
    by (simp add: rt_entry_def Let_def)
  have t: "trace ?w4 = trace w @ ?pre"
    by (simp add: platform_post_stackheap_init_def trace_call trace_cpy_nvic
        trace_set_stack_heap isolation_owns_vectors_def)
  obtain a e where tm: "trace (snd (mbed_start_main cfg env ?w4)) =
      trace ?w4 @ [Call_mbed_start_main, Call_osThreadNew a, e]"
    and e: "e = Call_error ''Pre main thread not created'' \<or> e = Call_osKernelStart"
    using trace_start_main [of cfg env ?w4] by blast
  have ev: "events_since w (snd (rt_entry cfg env w)) =
      ?pre @ [Call_mbed_start_main, Call_osThreadNew a, e]"
    unfolding r by (rule events_since_append) (simp only: tm t append_assoc)
  show "boot_steps (events_since w (snd (rt_entry cfg env w))) =
     [Call_mbed_set_stack_heap] @
     (if isolation_owns_vectors cfg then [] else [Call_mbed_cpy_nvic]) @
     [Call_mbed_sdk_init, Call_osKernelInitialize, Call_mbed_start_main]"
    using e by (auto simp: ev is_boot_step_def)
  show "filter (\<lambda>e. is_boot_step e \<or> e = Call_platform_post_stackheap_init)
     (events_since w (snd (rt_entry cfg env w))) =
     [Call_mbed_set_stack_heap] @
     (if isolation_owns_vectors cfg then [] else [Call_mbed_cpy_nvic]) @
     [Call_mbed_sdk_init, Call_platform_post_stackheap_init, Call_osKernelInitialize,
      Call_mbed_start_main]"
    using e by (auto simp: ev is_boot_step_def)
qed

lemma software_init_hook_steps:
  "(let pre = [Call_mbed_set_stack_heap] @
              (if isolation_owns_vectors cfg then [] else [Call_mbed_cpy_nvic]) @
              [Call_mbed_sdk_init, Call_osKernelInitialize];
        return_code = uvisor_lib_init_result env (trace w @ pre @ [Call_uvisor_lib_init])
    in boot_steps (events_since w (snd (software_init_hook cfg env w))) =
         pre @ (if FEATURE_UVISOR cfg \<and> return_code \<noteq> 0 then [] else [Call_mbed_start_main]))"
proof -
  let ?pre = "[Call_mbed_set_stack_heap] @
              (if isolation_owns_vectors cfg then [] else [Call_mbed_cpy_nvic]) @
              [Call_mbed_sdk_init, Call_osKernelInitialize]"
  let ?rc = "uvisor_lib_init_result env (trace w @ ?pre @ [Call_uvisor_lib_init])"
  let ?w4 = "call Call_osKernelInitialize (call Call_mbed_sdk_init
      (if \<not> (FEATURE_UVISOR cfg \<and> TARGET_UVISOR_SUPPORTED cfg)
       then mbed_cpy_nvic cfg (mbed_set_stack_heap cfg w)
       else mbed_set_stack_heap cfg w))"
  have t: "trace ?w4 = trace w @ ?pre"
    by (simp add: trace_call trace_cpy_nvic trace_set_stack_heap isolation_owns_vectors_def)
  show ?thesis
  proof (cases "FEATURE_UVISOR cfg")
    case False
    then have r: "software_init_hook cfg env w = mbed_start_main cfg env ?w4"
      by (simp add: software_init_hook_def Let_def)
    show ?thesis
      unfolding Let_def r steps_via_start_main(1) [OF t]
      using False by (simp add: is_boot_step_def)
  next
    case True
    let ?w5 = "log Call_uvisor_lib_init ?w4"
    have t5: "trace ?w5 = trace w @ ?pre @ [Call_uvisor_lib_init]"
      using t by (simp add: log_def)
    have rc: "fst (uvisor_lib_init env ?w4) = ?rc" "snd (uvisor_lib_init env ?w4) = ?w5"
      using t5 by (simp_all add: uvisor_lib_init_def Let_def)
    show ?thesis
    proof (cases "?rc = 0")
      case False
      have "software_init_hook cfg env w = (NoReturn, log Call_mbed_die ?w5)"
        using True False rc
        by (simp add: software_init_hook_def Let_def split_beta mbed_die_def)
      then have "events_since w (snd (software_init_hook cfg env w)) =
          ?pre @ [Call_uvisor_lib_init, Call_mbed_die]"
        using t5 by (simp add: events_since_def log_def)
      then show ?thesis
        unfolding Let_def using True False by (simp add: is_boot_step_def)
    next
      case rc0: True
      have r: "software_init_hook cfg env w = mbed_start_main cfg env ?w5"
        using True rc0 rc
        by (simp add: software_init_hook_def Let_def split_beta)
      show ?thesis
        unfolding Let_def r steps_via_start_main(1) [OF t5]
        using True rc0 by (simp add: is_boot_step_def)
    qed
  qed
qed

lemma iar_program_start_steps:
  "(let r = low_level_init_result env
              (trace w @ [Call_iar_init_core, Call_iar_init_vfp, Call_low_level_init]);
        low_level_init_needed_local = (ucast r :: u8)
    in boot_steps (events_since w (snd (iar_program_start cfg env w))) =
         (if low_level_init_needed_local \<noteq> 0
          then (if isolation_owns_vectors cfg then [] else [Call_mbed_cpy_nvic]) @
               [Call_mbed_sdk_init]
          else []) @
         [Call_mbed_set_stack_heap, Call_osKernelInitialize, Call_mbed_start_main])"
proof -
  let ?r = "low_level_init_result env
              (trace w @ [Call_iar_init_core, Call_iar_init_vfp, Call_low_level_init])"
  let ?l = "ucast ?r :: u8"
  let ?wc = "log Call_low_level_init (call Call_iar_init_vfp (call Call_iar_init_core w))"
  let ?w1 = "if ?l \<noteq> 0
             then call Call_mbed_sdk_init
                   (if \<not> (FEATURE_UVISOR cfg \<and> TARGET_UVISOR_SUPPORTED cfg)
                    then mbed_cpy_nvic cfg (call Call_iar_data_init3 ?wc)
                    else call Call_iar_data_init3 ?wc)
             else ?wc"
  let ?w4 = "call Call_osKernelInitialize
               ((mbed_set_stack_heap cfg ?w1)\<lparr>low_level_init_needed := ?l\<rparr>)"
  let ?pre = "[Call_iar_init_core, Call_iar_init_vfp, Call_low_level_init] @
      (if ?l \<noteq> 0
       then [Call_iar_data_init3] @
            (if isolation_owns_vectors cfg then [] else [Call_mbed_cpy_nvic]) @
            [Call_mbed_sdk_init]
       else []) @
      [Call_mbed_set_stack_heap, Call_osKernelInitialize]"
  have tc: "trace ?wc = trace w @ [Call_iar_init_core, Call_iar_init_vfp, Call_low_level_init]"
    by (simp add: trace_call log_def)
  have ll: "low_level_init env (call Call_iar_init_vfp (call Call_iar_init_core w)) = (?r, ?wc)"
    using tc by (simp add: low_level_init_def Let_def)
  have r: "iar_program_start cfg env w = mbed_start_main cfg env ?w4"
    by (simp add: iar_program_start_def Let_def ll)
  have t: "trace ?w4 = trace w @ ?pre"
    by (simp add: trace_call trace_cpy_nvic trace_set_stack_heap tc isolation_owns_vectors_def)
  show ?thesis
    unfolding Let_def r steps_via_start_main(1) [OF t]
    by (simp add: is_boot_step_def)
qed

text \<open>
  Claim C4. \<^verbatim>\<open>mbed_start_main\<close> calls \<^verbatim>\<open>osThreadNew\<close> once with the attributes of the
  main thread. When the kernel returns a null handle, the fatal-error reporter is called
  exactly once, with the message ``Pre main thread not created'', \<^verbatim>\<open>osKernelStart\<close> is
  not called, and \<^verbatim>\<open>mbed_start_main\<close> does not return. When the handle is not null, the
  fatal-error reporter is not called and \<^verbatim>\<open>osKernelStart\<close> is called exactly once.
\<close>

theorem mbed_start_main_thread_creation:
  "(let attr = (main_thread_attr w)
                 \<lparr>stack_mem := main_stack_ref,
                  stack_size := MBED_CONF_APP_MAIN_STACK_SIZE cfg,
                  thread_cb_size := sizeof_thread_obj cfg,
                  thread_cb_mem := main_obj_ref,
                  priority := osPriorityNormal,
                  thread_name := ''main_thread''\<rparr>;
        result = osThreadNew_result env (trace w @ [Call_mbed_start_main, Call_osThreadNew attr]);
        (r, w') = mbed_start_main cfg env w;
        evs = events_since w w'
    in if result = 0
       then evs = [Call_mbed_start_main, Call_osThreadNew attr,
                   Call_error ''Pre main thread not created''] \<and>
            errors_reported evs = [''Pre main thread not created''] \<and>
            Call_osKernelStart \<notin> set evs \<and>
            r = NoReturn
       else evs = [Call_mbed_start_main, Call_osThreadNew attr, Call_osKernelStart] \<and>
            errors_reported evs = [] \<and>
            count_list evs Call_osKernelStart = 1)"
  by (simp add: mbed_start_main_def osThreadNew_def osKernelStart_def error_def log_def
      Let_def events_since_def split_beta)

theorem mbed_start_main_thread_creation_witness:
  "fst (mbed_start_main example_config (example_env\<lparr>osThreadNew_result := (\<lambda>tr. 0)\<rparr>)
          reset_world) = NoReturn \<and>
   errors_reported (events_since reset_world
      (snd (mbed_start_main example_config (example_env\<lparr>osThreadNew_result := (\<lambda>tr. 0)\<rparr>)
              reset_world))) = [''Pre main thread not created''] \<and>
   Call_osKernelStart \<notin> set (events_since reset_world
      (snd (mbed_start_main example_config (example_env\<lparr>osThreadNew_result := (\<lambda>tr. 0)\<rparr>)
              reset_world))) \<and>
   errors_reported (events_since reset_world
      (snd (mbed_start_main example_config example_env reset_world))) = [] \<and>
   count_list (events_since reset_world
      (snd (mbed_start_main example_config example_env reset_world))) Call_osKernelStart = 1"
proof -
  have c: "osThreadNew_result example_env = (\<lambda>tr. 0x20001000)"
    "osThreadNew_result (example_env\<lparr>osThreadNew_result := (\<lambda>tr. 0)\<rparr>) = (\<lambda>tr. 0)"
    by (simp_all add: example_env_def)
  show ?thesis
    using mbed_start_main_thread_creation [where w = reset_world and cfg = example_config
        and env = example_env]
      mbed_start_main_thread_creation [where w = reset_world and cfg = example_config
        and env = "example_env\<lparr>osThreadNew_result := (\<lambda>tr. 0)\<rparr>"]
    by (simp add: c Let_def split_beta)
qed

text \<open>
  Claim C3, as amended. The boot steps of the four adapters, in the order in which they
  occur, none skipped and none repeated:
  \<^item> GCC \<^verbatim>\<open>software_init_hook\<close>: the order of the specification, that is
    \<^verbatim>\<open>mbed_set_stack_heap\<close>, \<^verbatim>\<open>mbed_cpy_nvic\<close> (unless isolation owns the vector table),
    \<^verbatim>\<open>mbed_sdk_init\<close>, \<^verbatim>\<open>osKernelInitialize\<close>, \<^verbatim>\<open>mbed_start_main\<close>. Only when
    \<^verbatim>\<open>FEATURE_UVISOR\<close> is defined and \<^verbatim>\<open>uvisor_lib_init\<close> returns non-zero, which is
    fatal, the boot halts after the first four of them.
  \<^item> MICROLIB \<^verbatim>\<open>_main_init\<close>: the order of the specification.
  \<^item> ARMC \<^verbatim>\<open>__rt_entry\<close>: the order of the specification; the kernel is initialised
    within \<^verbatim>\<open>_platform_post_stackheap_init\<close>.
  \<^item> IAR \<^verbatim>\<open>__iar_program_start\<close>: when the low eight bits of what \<^verbatim>\<open>__low_level_init\<close>
    returns are not all zero, \<^verbatim>\<open>mbed_cpy_nvic\<close> (unless isolation owns the vector table)
    and \<^verbatim>\<open>mbed_sdk_init\<close> come first, otherwise neither is called; then
    \<^verbatim>\<open>mbed_set_stack_heap\<close>, \<^verbatim>\<open>osKernelInitialize\<close>, \<^verbatim>\<open>mbed_start_main\<close>.
\<close>

theorem boot_order_of_adapters:
  "(let pre = [Call_mbed_set_stack_heap] @
              (if isolation_owns_vectors cfg then [] else [Call_mbed_cpy_nvic]) @
              [Call_mbed_sdk_init, Call_osKernelInitialize];
        return_code = uvisor_lib_init_result env (trace w @ pre @ [Call_uvisor_lib_init])
    in if FEATURE_UVISOR cfg \<and> return_code \<noteq> 0
       then boot_steps (events_since w (snd (software_init_hook cfg env w))) = pre
       else claimed_boot_order cfg (events_since w (snd (software_init_hook cfg env w)))) \<and>
   claimed_boot_order cfg (events_since w (snd (main_init cfg env w))) \<and>
   claimed_boot_order cfg (events_since w (snd (rt_entry cfg env w))) \<and>
   filter (\<lambda>e. is_boot_step e \<or> e = Call_platform_post_stackheap_init)
     (events_since w (snd (rt_entry cfg env w))) =
     [Call_mbed_set_stack_heap] @
     (if isolation_owns_vectors cfg then [] else [Call_mbed_cpy_nvic]) @
     [Call_mbed_sdk_init, Call_platform_post_stackheap_init, Call_osKernelInitialize,
      Call_mbed_start_main] \<and>
   (let r = low_level_init_result env
              (trace w @ [Call_iar_init_core, Call_iar_init_vfp, Call_low_level_init]);
        low_level_init_needed_local = (ucast r :: u8)
    in boot_steps (events_since w (snd (iar_program_start cfg env w))) =
         (if low_level_init_needed_local \<noteq> 0
          then (if isolation_owns_vectors cfg then [] else [Call_mbed_cpy_nvic]) @
               [Call_mbed_sdk_init]
          else []) @
         [Call_mbed_set_stack_heap, Call_osKernelInitialize, Call_mbed_start_main])"
proof -
  have gcc: "(let pre = [Call_mbed_set_stack_heap] @
              (if isolation_owns_vectors cfg then [] else [Call_mbed_cpy_nvic]) @
              [Call_mbed_sdk_init, Call_osKernelInitialize];
        return_code = uvisor_lib_init_result env (trace w @ pre @ [Call_uvisor_lib_init])
    in if FEATURE_UVISOR cfg \<and> return_code \<noteq> 0
       then boot_steps (events_since w (snd (software_init_hook cfg env w))) = pre
       else claimed_boot_order cfg (events_since w (snd (software_init_hook cfg env w))))"
    using software_init_hook_steps [where w = w and cfg = cfg and env = env]
    by (simp add: Let_def claimed_boot_order_def)
  have microlib: "claimed_boot_order cfg (events_since w (snd (main_init cfg env w)))"
    unfolding claimed_boot_order_def by (rule main_init_steps)
  have armc: "claimed_boot_order cfg (events_since w (snd (rt_entry cfg env w)))"
    unfolding claimed_boot_order_def by (rule rt_entry_steps(1))
  show ?thesis
    using gcc microlib armc rt_entry_steps(2) [where w = w and cfg = cfg and env = env]
      iar_program_start_steps [where w = w and cfg = cfg and env = env]
    by blast
qed

theorem boot_order_of_adapters_witness:
  "claimed_boot_order example_config (events_since reset_world
      (snd (software_init_hook example_config example_env reset_world))) \<and>
   boot_steps (events_since reset_world
      (snd (rt_entry example_config example_env reset_world))) =
     [Call_mbed_set_stack_heap, Call_mbed_cpy_nvic, Call_mbed_sdk_init,
      Call_osKernelInitialize, Call_mbed_start_main] \<and>
   filter (\<lambda>e. is_boot_step e \<or> e = Call_platform_post_stackheap_init)
     (events_since reset_world (snd (rt_entry example_config example_env reset_world))) =
     [Call_mbed_set_stack_heap, Call_mbed_cpy_nvic, Call_mbed_sdk_init,
      Call_platform_post_stackheap_init, Call_osKernelInitialize, Call_mbed_start_main] \<and>
   boot_steps (events_since reset_world
      (snd (software_init_hook (example_config\<lparr>FEATURE_UVISOR := True\<rparr>)
             (example_env\<lparr>uvisor_lib_init_result := (\<lambda>tr. 1)\<rparr>) reset_world))) =
     [Call_mbed_set_stack_heap, Call_mbed_cpy_nvic, Call_mbed_sdk_init,
      Call_osKernelInitialize]"
proof -
  have c: "isolation_owns_vectors example_config = False" "FEATURE_UVISOR example_config = False"
    "isolation_owns_vectors (example_config\<lparr>FEATURE_UVISOR := True\<rparr>) = False"
    "uvisor_lib_init_result (example_env\<lparr>uvisor_lib_init_result := (\<lambda>tr. 1)\<rparr>) = (\<lambda>tr. 1)"
    by (simp_all add: isolation_owns_vectors_def example_config_def)
  show ?thesis
    using boot_order_of_adapters [where w = reset_world and cfg = example_config
        and env = example_env]
      boot_order_of_adapters [where w = reset_world
        and cfg = "example_config\<lparr>FEATURE_UVISOR := True\<rparr>"
        and env = "example_env\<lparr>uvisor_lib_init_result := (\<lambda>tr. 1)\<rparr>"]
    by (simp add: c Let_def claimed_boot_order_def)
qed

text \<open>
  Claim C3 as stated fails for IAR: in the IAR example configuration, where
  \<^verbatim>\<open>__low_level_init\<close> returns 1, \<^verbatim>\<open>__iar_program_start\<close> runs \<^verbatim>\<open>mbed_cpy_nvic\<close> and
  \<^verbatim>\<open>mbed_sdk_init\<close> before \<^verbatim>\<open>mbed_set_stack_heap\<close>. So its boot steps are not the
  sequence of the specification, and they do not respect its order either.
\<close>

theorem boot_order_iar_counterexample:
  "\<not> claimed_boot_order iar_example_config
       (events_since reset_world
          (snd (iar_program_start iar_example_config example_env reset_world))) \<and>
   \<not> boot_order_respected
       (events_since reset_world
          (snd (iar_program_start iar_example_config example_env reset_world))) \<and>
   boot_steps
       (events_since reset_world
          (snd (iar_program_start iar_example_config example_env reset_world))) =
     [Call_mbed_cpy_nvic, Call_mbed_sdk_init, Call_mbed_set_stack_heap,
      Call_osKernelInitialize, Call_mbed_start_main]"
proof -
  have c: "isolation_owns_vectors iar_example_config = False"
    "low_level_init_result example_env = (\<lambda>tr. 1)"
    by (simp_all add: isolation_owns_vectors_def iar_example_config_def example_config_def
        example_env_def)
  have s: "boot_steps (events_since reset_world
      (snd (iar_program_start iar_example_config example_env reset_world))) =
     [Call_mbed_cpy_nvic, Call_mbed_sdk_init, Call_mbed_set_stack_heap,
      Call_osKernelInitialize, Call_mbed_start_main]"
    using iar_program_start_steps [where w = reset_world and cfg = iar_example_config
        and env = example_env]
    by (simp add: c Let_def)
  show ?thesis
    by (simp add: claimed_boot_order_def boot_order_respected_def s boot_rank_def c)
qed

end
